theory Spec2Isabelle
  imports Complex_Main "HOL-Library.Word"
begin

section \<open>Common data\<close>

text \<open>
  The sources are \<^verbatim>\<open>hyperelasticSolver.cpp\<close> (the quadrature point history and the
  Newton-Raphson driver of the solid solver) and \<^verbatim>\<open>source/fsi.cpp\<close> (the coupling
  between the fluid and the solid solver). A \<^verbatim>\<open>double\<close> is idealised as a \<open>real\<close>;
  an \<^verbatim>\<open>unsigned int\<close> loop counter is a \<open>32 word\<close>. An exception or a failed
  assertion is a value of \<open>error\<close>, returned on the left of a sum.
\<close>

datatype error =
    ExcInternalError
  | ExcNotImplemented
  | ExcMessage string
  | ExcIndexRange
  | ExcPointNotInDomain
  | NullPointerDereference

type_synonym point = "real list"
type_synonym tensor1 = "real list"
type_synonym tensor2 = "real list list"

definition bindE :: "error + 'a \<Rightarrow> ('a \<Rightarrow> error + 'b) \<Rightarrow> error + 'b" where
  "bindE m f = (case m of Inl e \<Rightarrow> Inl e | Inr x \<Rightarrow> f x)"

text \<open>The entries of the run-time parameters that the two files read.\<close>

record Parameters =
  type :: string
  C :: "real list"
  rho :: real
  max_iterations_NR :: "32 word"
  tol_u :: real
  tol_f :: real
  viscosity :: real
  gravity :: "real list"
  solid_dirichlet_bcs :: "nat list"


section \<open>The Newton-Raphson driver: \<^verbatim>\<open>HyperelasticSolver::solveNonlinearTimestep\<close>\<close>

text \<open>
  \<^verbatim>\<open>Errors\<close> is the pair of scalars the solver prints (\<^verbatim>\<open>.norm\<close> and \<^verbatim>\<open>.u\<close>).
  The field \<^verbatim>\<open>norm\<close> is written \<open>norm_E\<close>, since \<open>norm\<close> is a constant of HOL.
\<close>

record Errors =
  norm_E :: real
  u :: real

text \<open>
  The members of the solver that \<^verbatim>\<open>solveNonlinearTimestep\<close> reads and writes. The
  finite-element data (tangent matrix, right-hand side, constraints, quadrature
  point history) are one component \<open>fe\<close> of an arbitrary type: the function only
  hands them to the routines below.
\<close>

record 'f HyperelasticSolver =
  errorResidual :: Errors
  errorResidual0 :: Errors
  errorResidualNorm :: Errors
  errorUpdate :: Errors
  errorUpdate0 :: Errors
  errorUpdateNorm :: Errors
  fe :: 'f

text \<open>
  The routines \<^verbatim>\<open>solveNonlinearTimestep\<close> calls, taken as parameters: the assembly
  of the residual and of the tangent, the constraints, the linear solver, the two
  error measurements, \<^verbatim>\<open>Errors::reset\<close> and \<^verbatim>\<open>Errors::normalize\<close>, whose bodies are in
  other translation units, and \<^verbatim>\<open>updateGlobalQPH\<close>, which hands the displacement
  gradients of the finite-element library to \<^verbatim>\<open>PointHistory::update\<close> at every
  quadrature point. \<open>zero_system\<close> stands for the two
  assignments \<^verbatim>\<open>tangentMatrix = 0.0; systemRHS = 0.0\<close>, and \<open>n_dofs\<close> for
  \<^verbatim>\<open>dofHandler.n_dofs()\<close>. \<open>solveLinearSystem\<close> gets the vector \<^verbatim>\<open>newton_update\<close> as it
  is and returns the new one. The routines are total functions here: a run in
  which one of them raises ends with that exception and is not described.
\<close>

record 'f substrate =
  n_dofs :: "'f \<Rightarrow> nat"
  reset :: "Errors \<Rightarrow> Errors"
  normalize :: "Errors \<Rightarrow> Errors \<Rightarrow> Errors"
  zero_system :: "'f \<Rightarrow> 'f"
  assembleGlobalRHS :: "'f \<Rightarrow> 'f"
  getErrorResidual :: "'f \<Rightarrow> Errors"
  assembleGlobalTangent :: "'f \<Rightarrow> 'f"
  make_constraints :: "32 word \<Rightarrow> 'f \<Rightarrow> 'f"
  condense :: "'f \<Rightarrow> 'f"
  solveLinearSystem :: "'f \<Rightarrow> real list \<Rightarrow> real list \<times> 'f"
  getErrorUpdate :: "'f \<Rightarrow> real list \<Rightarrow> Errors"
  updateGlobalQPH :: "'f \<Rightarrow> real list \<Rightarrow> 'f"

text \<open>Lines 373 to 384 of the loop body: the residual and its normalised value.\<close>

definition residual_phase ::
  "'f substrate \<Rightarrow> 32 word \<Rightarrow> 'f HyperelasticSolver \<Rightarrow> 'f HyperelasticSolver" where
  "residual_phase ops newton_iteration s =
     (let f1 = assembleGlobalRHS ops (zero_system ops (fe s));
          s1 = s\<lparr>fe := f1, errorResidual := getErrorResidual ops f1\<rparr>;
          s2 = (if newton_iteration = 0
                then s1\<lparr>errorResidual0 := errorResidual s1\<rparr> else s1)
      in s2\<lparr>errorResidualNorm := normalize ops (errorResidual s2) (errorResidual0 s2)\<rparr>)"

text \<open>The condition of the \<^verbatim>\<open>if\<close> at lines 386 and 387, which leaves the loop.\<close>

definition converged ::
  "Parameters \<Rightarrow> 32 word \<Rightarrow> 'f HyperelasticSolver \<Rightarrow> bool" where
  "converged parameters newton_iteration s \<longleftrightarrow>
     0 < newton_iteration
     \<and> norm_E (errorUpdateNorm s) \<le> tol_u parameters
     \<and> norm_E (errorResidualNorm s) \<le> tol_f parameters"

text \<open>
  Lines 394 to 411: tangent, constraints, linear solve, the error of the update
  and its normalised value, and the update of the increment (a \<^verbatim>\<open>Vector\<close> sum).
\<close>

definition update_phase ::
  "'f substrate \<Rightarrow> 32 word \<Rightarrow> 'f HyperelasticSolver \<times> real list \<times> real list
     \<Rightarrow> 'f HyperelasticSolver \<times> real list \<times> real list" where
  "update_phase ops newton_iteration = (\<lambda>(s, solution_delta, newton_update).
     (let f1 = condense ops (make_constraints ops newton_iteration
                 (assembleGlobalTangent ops (fe s)));
          (newton_update', f2) = solveLinearSystem ops f1 newton_update;
          s1 = s\<lparr>fe := f2, errorUpdate := getErrorUpdate ops f2 newton_update'\<rparr>;
          s2 = (if newton_iteration = 0
                then s1\<lparr>errorUpdate0 := errorUpdate s1\<rparr> else s1);
          s3 = s2\<lparr>errorUpdateNorm := normalize ops (errorUpdate s2) (errorUpdate0 s2)\<rparr>;
          solution_delta' = map2 (+) solution_delta newton_update'
      in (s3\<lparr>fe := updateGlobalQPH ops (fe s3) solution_delta'\<rparr>,
          solution_delta', newton_update')))"

text \<open>
  The \<^verbatim>\<open>for\<close> loop. Its state is the solver with the two vectors
  \<^verbatim>\<open>solution_delta\<close> and \<^verbatim>\<open>newton_update\<close>. The result is the value of
  \<^verbatim>\<open>newton_iteration\<close> when the loop is left, by \<^verbatim>\<open>break\<close> or because the counter
  reached \<^verbatim>\<open>max_iterations_NR\<close>, with the state at that moment.
\<close>

function newton_loop ::
  "'f substrate \<Rightarrow> Parameters \<Rightarrow> 32 word
     \<Rightarrow> 'f HyperelasticSolver \<times> real list \<times> real list
     \<Rightarrow> 32 word \<times> 'f HyperelasticSolver \<times> real list \<times> real list" where
  "newton_loop ops parameters newton_iteration st =
     (if newton_iteration < max_iterations_NR parameters
      then (let s1 = residual_phase ops newton_iteration (fst st)
            in if converged parameters newton_iteration s1
               then (newton_iteration, s1, snd st)
               else newton_loop ops parameters (newton_iteration + 1)
                      (update_phase ops newton_iteration (s1, snd st)))
      else (newton_iteration, st))"
  by pat_completeness auto
termination
proof (relation "measure (\<lambda>(ops, parameters, k, st). unat (max_iterations_NR parameters) - unat k)")
  show "wf (measure (\<lambda>(ops, parameters, k, st). unat (max_iterations_NR parameters) - unat k))"
    by simp
next
  fix ops :: "'f substrate" and parameters :: Parameters and newton_iteration :: "32 word"
    and st :: "'f HyperelasticSolver \<times> real list \<times> real list" and x
  assume lt: "newton_iteration < max_iterations_NR parameters"
  then have "unat (newton_iteration + 1) = Suc (unat newton_iteration)"
    by unat_arith
  moreover from lt have "unat newton_iteration < unat (max_iterations_NR parameters)"
    by (simp add: word_less_nat_alt)
  ultimately show "((ops, parameters, newton_iteration + 1,
           update_phase ops newton_iteration (x, snd st)),
          ops, parameters, newton_iteration, st)
         \<in> measure (\<lambda>(ops, parameters, k, st). unat (max_iterations_NR parameters) - unat k)"
    by simp
qed

text \<open>The six calls of \<^verbatim>\<open>reset\<close> before the loop (lines 359 to 364).\<close>

definition reset_errors :: "'f substrate \<Rightarrow> 'f HyperelasticSolver \<Rightarrow> 'f HyperelasticSolver" where
  "reset_errors ops s =
     s\<lparr>errorResidual := reset ops (errorResidual s),
       errorResidual0 := reset ops (errorResidual0 s),
       errorResidualNorm := reset ops (errorResidualNorm s),
       errorUpdate := reset ops (errorUpdate s),
       errorUpdate0 := reset ops (errorUpdate0 s),
       errorUpdateNorm := reset ops (errorUpdateNorm s)\<rparr>"

text \<open>
  The whole function: \<^verbatim>\<open>newton_update\<close> is allocated with \<^verbatim>\<open>n_dofs()\<close> zeros, the
  errors are reset, the loop runs, and the \<^verbatim>\<open>AssertThrow\<close> of line 420, which is
  checked in every build mode, decides. \<open>start\<close> is the state at the head of the
  loop; the solver and \<^verbatim>\<open>solution_delta\<close>, which the caller passes by reference,
  are returned.
\<close>

definition start ::
  "'f substrate \<Rightarrow> 'f HyperelasticSolver \<Rightarrow> real list
     \<Rightarrow> 'f HyperelasticSolver \<times> real list \<times> real list" where
  "start ops s solution_delta =
     (reset_errors ops s, solution_delta, replicate (n_dofs ops (fe s)) 0)"

definition solveNonlinearTimestep ::
  "'f substrate \<Rightarrow> Parameters \<Rightarrow> 'f HyperelasticSolver \<Rightarrow> real list
     \<Rightarrow> error + 'f HyperelasticSolver \<times> real list" where
  "solveNonlinearTimestep ops parameters s solution_delta =
     (let (newton_iteration, s', solution_delta', newton_update) =
            newton_loop ops parameters 0 (start ops s solution_delta)
      in if newton_iteration < max_iterations_NR parameters
         then Inr (s', solution_delta')
         else Inl (ExcMessage ''No convergence in nonlinear solver!''))"

subsection \<open>The iterations, one by one\<close>

text \<open>
  \<open>state_at ops st0 k\<close> is the state at the head of iteration \<open>k\<close> when the loop,
  started in \<open>st0\<close>, has not been left before. \<open>residual_at\<close> and \<open>update_at\<close> are
  the two errors measured in iteration \<open>k\<close>: the one of the residual
  (\<^verbatim>\<open>getErrorResidual\<close>) and the one of the Newton update (\<^verbatim>\<open>getErrorUpdate\<close>).
\<close>

fun state_at ::
  "'f substrate \<Rightarrow> 'f HyperelasticSolver \<times> real list \<times> real list \<Rightarrow> nat
     \<Rightarrow> 'f HyperelasticSolver \<times> real list \<times> real list" where
  "state_at ops st0 0 = st0"
| "state_at ops st0 (Suc k) =
     update_phase ops (of_nat k)
       (residual_phase ops (of_nat k) (fst (state_at ops st0 k)), snd (state_at ops st0 k))"

definition residual_at ::
  "'f substrate \<Rightarrow> 'f HyperelasticSolver \<times> real list \<times> real list \<Rightarrow> nat \<Rightarrow> Errors" where
  "residual_at ops st0 k =
     getErrorResidual ops
       (assembleGlobalRHS ops (zero_system ops (fe (fst (state_at ops st0 k)))))"

definition update_at ::
  "'f substrate \<Rightarrow> 'f HyperelasticSolver \<times> real list \<times> real list \<Rightarrow> nat \<Rightarrow> Errors" where
  "update_at ops st0 k =
     (let f = assembleGlobalRHS ops (zero_system ops (fe (fst (state_at ops st0 k))));
          (newton_update, f2) = solveLinearSystem ops
             (condense ops (make_constraints ops (of_nat k) (assembleGlobalTangent ops f)))
             (snd (snd (state_at ops st0 k)))
      in getErrorUpdate ops f2 newton_update)"

text \<open>
  The convergence test in the words of the specification: the iteration is not the
  first one, the error of the last Newton update divided by its value of iteration
  0 is at most \<open>tol_u\<close>, and the error of the residual divided by its value of
  iteration 0 is at most \<open>tol_f\<close>. The last Newton update at the head of
  iteration \<open>k\<close> is the one computed in iteration \<open>k - 1\<close>.
\<close>

definition convergence_test ::
  "'f substrate \<Rightarrow> Parameters \<Rightarrow> 'f HyperelasticSolver \<times> real list \<times> real list
     \<Rightarrow> nat \<Rightarrow> bool" where
  "convergence_test ops parameters st0 k \<longleftrightarrow>
     0 < k
     \<and> norm_E (normalize ops (update_at ops st0 (k - 1)) (update_at ops st0 0))
           \<le> tol_u parameters
     \<and> norm_E (normalize ops (residual_at ops st0 k) (residual_at ops st0 0))
           \<le> tol_f parameters"

subsection \<open>A small instance\<close>

text \<open>
  A substrate on which the functions can be run: the finite-element data is one
  number, the size of the residual, which every update of the quadrature point
  history halves. \<^verbatim>\<open>normalize\<close> divides by the baseline.
\<close>

definition halving :: "real substrate" where
  "halving =
     \<lparr>n_dofs = (\<lambda>f. 1),
      reset = (\<lambda>e. \<lparr>norm_E = 1, u = 1\<rparr>),
      normalize = (\<lambda>e b. \<lparr>norm_E = norm_E e / norm_E b, u = u e / u b\<rparr>),
      zero_system = (\<lambda>f. f),
      assembleGlobalRHS = (\<lambda>f. f),
      getErrorResidual = (\<lambda>f. \<lparr>norm_E = f, u = f\<rparr>),
      assembleGlobalTangent = (\<lambda>f. f),
      make_constraints = (\<lambda>k f. f),
      condense = (\<lambda>f. f),
      solveLinearSystem = (\<lambda>f nu. ([f], f)),
      getErrorUpdate = (\<lambda>f nu. \<lparr>norm_E = f, u = f\<rparr>),
      updateGlobalQPH = (\<lambda>f d. f / 2)\<rparr>"

definition solver8 :: "real HyperelasticSolver" where
  "solver8 =
     \<lparr>errorResidual = \<lparr>norm_E = 1, u = 1\<rparr>, errorResidual0 = \<lparr>norm_E = 1, u = 1\<rparr>,
      errorResidualNorm = \<lparr>norm_E = 1, u = 1\<rparr>, errorUpdate = \<lparr>norm_E = 1, u = 1\<rparr>,
      errorUpdate0 = \<lparr>norm_E = 1, u = 1\<rparr>, errorUpdateNorm = \<lparr>norm_E = 1, u = 1\<rparr>,
      fe = 8\<rparr>"

definition newton_parameters :: "32 word \<Rightarrow> real \<Rightarrow> Parameters" where
  "newton_parameters n tol =
     \<lparr>type = ''NeoHookean'', C = [1], rho = 1, max_iterations_NR = n, tol_u = tol,
      tol_f = tol, viscosity = 1, gravity = [0, 0], solid_dirichlet_bcs = []\<rparr>"


section \<open>The quadrature point history: \<^verbatim>\<open>PointHistory\<close>\<close>

subsection \<open>Tensors of rank 2\<close>

text \<open>
  A \<^verbatim>\<open>Tensor<2, dim>\<close> is the list of its rows. \<^verbatim>\<open>PointHistory\<close> is instantiated
  for \<open>spacedim = 2\<close> and \<open>spacedim = 3\<close>. \<open>zero_tensor\<close> is the default-constructed tensor,
  \<open>unit_tensor\<close> is \<^verbatim>\<open>StandardTensors<dim>::I\<close>, and \<open>Kinematics_F\<close>, \<open>determinant\<close>
  and \<open>invert\<close> are the functions of the finite-element library with these names:
  \<open>F = I + Grad_u\<close>, and the cofactor formulas. Where the determinant is zero the
  C++ code divides by zero; the value of the model there is the one of HOL's
  division, and no statement below is about it.
\<close>

definition zero_tensor :: "nat \<Rightarrow> tensor2" where
  "zero_tensor spacedim = replicate spacedim (replicate spacedim 0)"

definition unit_tensor :: "nat \<Rightarrow> tensor2" where
  "unit_tensor spacedim = map (\<lambda>i. map (\<lambda>j. if i = j then 1 else 0) [0..<spacedim]) [0..<spacedim]"

definition tensor_add :: "tensor2 \<Rightarrow> tensor2 \<Rightarrow> tensor2" where
  "tensor_add a b = map2 (map2 (+)) a b"

definition tensor_sub :: "tensor2 \<Rightarrow> tensor2 \<Rightarrow> tensor2" where
  "tensor_sub a b = map2 (map2 (-)) a b"

definition tensor_scale :: "real \<Rightarrow> tensor2 \<Rightarrow> tensor2" where
  "tensor_scale c a = map (map ((*) c)) a"

definition Kinematics_F :: "nat \<Rightarrow> tensor2 \<Rightarrow> tensor2" where
  "Kinematics_F spacedim Grad_u = tensor_add (unit_tensor spacedim) Grad_u"

fun determinant :: "tensor2 \<Rightarrow> real" where
  "determinant [[a, b], [c, d]] = a * d - c * b"
| "determinant [[a, b, c], [d, e, f], [g, h, i]] =
     a * (e * i - f * h) - b * (d * i - f * g) + c * (d * h - e * g)"
| "determinant t = 0"

fun invert :: "tensor2 \<Rightarrow> tensor2" where
  "invert [[a, b], [c, d]] =
     tensor_scale (1 / determinant [[a, b], [c, d]]) [[d, - b], [- c, a]]"
| "invert [[a, b, c], [d, e, f], [g, h, i]] =
     tensor_scale (1 / determinant [[a, b, c], [d, e, f], [g, h, i]])
       [[e * i - f * h, c * h - b * i, b * f - c * e],
        [f * g - d * i, a * i - c * g, c * d - a * f],
        [d * h - e * g, b * g - a * h, a * e - b * d]]"
| "invert t = t"

subsection \<open>The material\<close>

text \<open>
  Modelled from the spec: the class \<^verbatim>\<open>NeoHookean\<close>, whose header and member
  functions are not in the files at hand. The specification gives it a shear
  modulus and a density, fixed at construction, and the deformation gradient with
  the quantities derived from it, absent until \<^verbatim>\<open>updateData\<close> is called. How the
  derived quantities follow from \<open>F\<close> and the two constants is the constitutive
  law, a parameter \<open>law\<close>; the type \<open>'j\<close> is the one of the tangent modulus (a
  tensor of rank 4).
\<close>

record 'j constitutive_law =
  kirchhoff_stress :: "real \<Rightarrow> real \<Rightarrow> tensor2 \<Rightarrow> tensor2"
  tangent_modulus :: "real \<Rightarrow> real \<Rightarrow> tensor2 \<Rightarrow> 'j"
  dPsi_vol :: "real \<Rightarrow> real \<Rightarrow> tensor2 \<Rightarrow> real"
  d2Psi_vol :: "real \<Rightarrow> real \<Rightarrow> tensor2 \<Rightarrow> real"

record 'j material_data =
  data_F :: tensor2
  data_tau :: tensor2
  data_Jc :: 'j
  data_dPsi_vol_dJ :: real
  data_d2Psi_vol_dJ2 :: real

record 'j NeoHookean =
  nh_mu :: real
  nh_rho :: real
  nh_data :: "'j material_data option"

text \<open>
  Modelled from the spec: the constructor \<^verbatim>\<open>NeoHookean(C[0], rho)\<close>, which fixes the
  two constants of a material that has not seen a deformation gradient yet.
\<close>

definition NeoHookean_new :: "real \<Rightarrow> real \<Rightarrow> 'j NeoHookean" where
  "NeoHookean_new c r = \<lparr>nh_mu = c, nh_rho = r, nh_data = None\<rparr>"

text \<open>
  Modelled from the spec: \<^verbatim>\<open>updateData(F)\<close> "stores F and derived internal
  quantities".
\<close>

definition updateData :: "'j constitutive_law \<Rightarrow> 'j NeoHookean \<Rightarrow> tensor2 \<Rightarrow> 'j NeoHookean" where
  "updateData law m F =
     m\<lparr>nh_data := Some
        \<lparr>data_F = F,
         data_tau = kirchhoff_stress law (nh_mu m) (nh_rho m) F,
         data_Jc = tangent_modulus law (nh_mu m) (nh_rho m) F,
         data_dPsi_vol_dJ = dPsi_vol law (nh_mu m) (nh_rho m) F,
         data_d2Psi_vol_dJ2 = d2Psi_vol law (nh_mu m) (nh_rho m) F\<rparr>\<rparr>"

text \<open>
  Modelled from the spec: the accessors \<^verbatim>\<open>getTau\<close>, \<^verbatim>\<open>getJc\<close>,
  \<^verbatim>\<open>get_dPsi_vol_dJ\<close> and \<^verbatim>\<open>get_d2Psi_vol_dJ2\<close> "return Kirchhoff stress, spatial
  tangent modulus, and the two volumetric-energy derivatives", and an accessor
  "fails (precondition violation, fatal) if \<^verbatim>\<open>updateData\<close> has never been called".
\<close>

definition accessor :: "('j material_data \<Rightarrow> 'a) \<Rightarrow> 'j NeoHookean \<Rightarrow> error + 'a" where
  "accessor field m = (case nh_data m of None \<Rightarrow> Inl ExcInternalError | Some d \<Rightarrow> Inr (field d))"

definition getTau :: "'j NeoHookean \<Rightarrow> error + tensor2" where
  "getTau = accessor data_tau"

definition getJc :: "'j NeoHookean \<Rightarrow> error + 'j" where
  "getJc = accessor data_Jc"

definition get_dPsi_vol_dJ :: "'j NeoHookean \<Rightarrow> error + real" where
  "get_dPsi_vol_dJ = accessor data_dPsi_vol_dJ"

definition get_d2Psi_vol_dJ2 :: "'j NeoHookean \<Rightarrow> error + real" where
  "get_d2Psi_vol_dJ2 = accessor data_d2Psi_vol_dJ2"

text \<open>
  Modelled from the spec: \<^verbatim>\<open>detF()\<close> "returns J", the determinant of the
  deformation gradient the material holds.
\<close>

definition getDetF :: "'j NeoHookean \<Rightarrow> error + real" where
  "getDetF = accessor (\<lambda>d. determinant (data_F d))"

subsection \<open>\<^verbatim>\<open>PointHistory::update\<close> and \<^verbatim>\<open>PointHistory::setup\<close>\<close>

text \<open>
  The members the two functions write. \<open>material\<close> is the shared pointer: \<open>None\<close>
  is the null pointer, and since \<^verbatim>\<open>NeoHookean\<close> is the only material class, a
  pointer that is not null points to a \<^verbatim>\<open>NeoHookean\<close> and the dynamic cast of it
  succeeds. The object is held by this pointer alone, so it is kept by value.
\<close>

record 'j PointHistory =
  material :: "'j NeoHookean option"
  FInv :: tensor2
  tau :: tensor2
  Jc :: 'j
  dPsi_vol_dJ :: real
  d2Psi_vol_dJ2 :: real

text \<open>
  \<^verbatim>\<open>Assert(cond, exc)\<close> is the library's macro; a failed assertion is modelled as
  the exception \<open>exc\<close>. Calling a member through a null \<open>material\<close> is the error
  \<open>NullPointerDereference\<close>.
\<close>

definition PointHistory_update ::
  "'j constitutive_law \<Rightarrow> nat \<Rightarrow> 'j PointHistory \<Rightarrow> tensor2 \<Rightarrow> error + 'j PointHistory" where
  "PointHistory_update law spacedim this Grad_u =
     (let F = Kinematics_F spacedim Grad_u in
      case material this of
        None \<Rightarrow> Inl NullPointerDereference
      | Some m \<Rightarrow>
          (let this1 = this\<lparr>material := Some (updateData law m F), FInv := invert F\<rparr>;
               nh = material this1
           in case nh of
                None \<Rightarrow> Inl ExcInternalError
              | Some n \<Rightarrow>
                  bindE (getTau n) (\<lambda>t.
                  bindE (getJc n) (\<lambda>j.
                  bindE (get_dPsi_vol_dJ n) (\<lambda>d1.
                  bindE (get_d2Psi_vol_dJ2 n) (\<lambda>d2.
                    Inr (this1\<lparr>tau := t, Jc := j, dPsi_vol_dJ := d1,
                               d2Psi_vol_dJ2 := d2\<rparr>)))))))"

text \<open>
  In \<^verbatim>\<open>setup\<close> the local pointer \<open>nh\<close> is the cast of \<open>material\<close>. Line 13,
  \<^verbatim>\<open>nh.reset(new NeoHookean<dim>(parameters.C[0], parameters.rho))\<close>, makes the
  local \<open>nh\<close> point to the new object; the member \<open>material\<close> is not assigned, and
  the new object goes with \<open>nh\<close> at the end of the block. Line 14 calls \<open>update\<close>
  with a default-constructed (zero) tensor.
\<close>

definition PointHistory_setup ::
  "'j constitutive_law \<Rightarrow> nat \<Rightarrow> 'j PointHistory \<Rightarrow> Parameters \<Rightarrow> error + 'j PointHistory" where
  "PointHistory_setup law spacedim this parameters =
     (if type parameters = ''NeoHookean''
      then (let nh = material this in
            if nh = None then Inl ExcInternalError
            else if C parameters = [] then Inl ExcInternalError
            else (let nh = Some (NeoHookean_new (C parameters ! 0) (rho parameters)
                                   :: 'j NeoHookean)
                  in PointHistory_update law spacedim this (zero_tensor spacedim)))
      else Inl ExcNotImplemented)"

subsection \<open>A small instance\<close>

text \<open>
  A constitutive law to run the functions on: the stress \<open>mu (F - I)\<close>, no tangent
  modulus, and the volumetric derivatives \<open>mu (J - 1)\<close> and \<open>mu\<close>.
\<close>

definition linear_law :: "unit constitutive_law" where
  "linear_law =
     \<lparr>kirchhoff_stress = (\<lambda>m r F. tensor_scale m (tensor_sub F (unit_tensor (length F)))),
      tangent_modulus = (\<lambda>m r F. ()),
      dPsi_vol = (\<lambda>m r F. m * (determinant F - 1)),
      d2Psi_vol = (\<lambda>m r F. m)\<rparr>"

definition history_with :: "unit NeoHookean option \<Rightarrow> unit PointHistory" where
  "history_with m =
     \<lparr>material = m, FInv = unit_tensor 2, tau = zero_tensor 2, Jc = (),
      dPsi_vol_dJ = 0, d2Psi_vol_dJ2 = 0\<rparr>"

definition material_parameters :: "string \<Rightarrow> real list \<Rightarrow> real \<Rightarrow> Parameters" where
  "material_parameters t cs r =
     \<lparr>type = t, C = cs, rho = r, max_iterations_NR = 10, tol_u = 1 / 10,
      tol_f = 1 / 10, viscosity = 1, gravity = [0, 0], solid_dirichlet_bcs = []\<rparr>"

section \<open>The coupling of fluid and solid: \<^verbatim>\<open>FSI\<close>\<close>

subsection \<open>Loops that can fail, and checked access\<close>

text \<open>
  \<open>foldE\<close> is a \<^verbatim>\<open>for\<close> loop whose body can raise, \<open>mapE\<close> collects the results
  of the body. \<open>nth_checked\<close> and \<open>store_at\<close> read and write an element of a
  vector; an index out of range is the error \<open>ExcIndexRange\<close>. \<open>fit n\<close> is a
  vector allocated with \<open>n\<close> zero entries and then filled by a library routine.
\<close>

fun foldE :: "('a \<Rightarrow> 's \<Rightarrow> error + 's) \<Rightarrow> 'a list \<Rightarrow> 's \<Rightarrow> error + 's" where
  "foldE body [] s = Inr s"
| "foldE body (x # xs) s = bindE (body x s) (foldE body xs)"

fun mapE :: "('a \<Rightarrow> error + 'b) \<Rightarrow> 'a list \<Rightarrow> error + 'b list" where
  "mapE body [] = Inr []"
| "mapE body (x # xs) = bindE (body x) (\<lambda>y. bindE (mapE body xs) (\<lambda>ys. Inr (y # ys)))"

definition nth_checked :: "'a list \<Rightarrow> nat \<Rightarrow> error + 'a" where
  "nth_checked xs i = (if i < length xs then Inr (xs ! i) else Inl ExcIndexRange)"

definition store_at :: "nat \<Rightarrow> ('a \<Rightarrow> error + 'a) \<Rightarrow> 'a list \<Rightarrow> error + 'a list" where
  "store_at i g xs =
     (if i < length xs then bindE (g (xs ! i)) (\<lambda>x. Inr (xs[i := x])) else Inl ExcIndexRange)"

definition fit :: "nat \<Rightarrow> real list \<Rightarrow> real list" where
  "fit n xs = take n (xs @ replicate n 0)"

text \<open>
  The loop over the active cells with the data \<^verbatim>\<open>cell_property.get_data(cell)\<close> of
  each: the data of the cells are a list in the order of the cells, and a cell
  without data is an error.
\<close>

fun for_cells :: "('c \<Rightarrow> 'p \<Rightarrow> error + 'p) \<Rightarrow> 'c list \<Rightarrow> 'p list \<Rightarrow> error + 'p list" where
  "for_cells body [] ps = Inr ps"
| "for_cells body (c # cs) [] = Inl ExcInternalError"
| "for_cells body (c # cs) (p # ps) =
     bindE (body c p) (\<lambda>p'. bindE (for_cells body cs ps) (\<lambda>ps'. Inr (p' # ps')))"

subsection \<open>Vectors and tensors\<close>

definition zero_vector :: "nat \<Rightarrow> tensor1" where
  "zero_vector spacedim = replicate spacedim 0"

definition point_add :: "point \<Rightarrow> point \<Rightarrow> point" where
  "point_add a b = map2 (+) a b"

definition point_sub :: "point \<Rightarrow> point \<Rightarrow> point" where
  "point_sub a b = map2 (-) a b"

definition vector_scale :: "real \<Rightarrow> tensor1 \<Rightarrow> tensor1" where
  "vector_scale c a = map ((*) c) a"

definition dot :: "tensor1 \<Rightarrow> tensor1 \<Rightarrow> real" where
  "dot a b = sum_list (map2 (*) a b)"

definition tensor_apply :: "tensor2 \<Rightarrow> tensor1 \<Rightarrow> tensor1" where
  "tensor_apply t a = map (\<lambda>row. dot row a) t"

subsection \<open>The two solvers as the coupling sees them\<close>

text \<open>
  A cell of the solid mesh gives, for each of its vertices \<open>v\<close>, the index
  \<^verbatim>\<open>vertex_index(v)\<close> of the vertex in the triangulation and the indices
  \<^verbatim>\<open>vertex_dof_index(v, d)\<close> of its degrees of freedom (one for each \<open>d < dim\<close>);
  \<^verbatim>\<open>cell->vertex(v)\<close> is the entry \<open>vertex_index(v)\<close> of the vertices of the
  triangulation. A face knows whether it is at the boundary, and its boundary id.
\<close>

record cell_vertex =
  vertex_index :: nat
  vertex_dof_index :: "nat list"

record face =
  at_boundary :: bool
  boundary_id :: nat

record solid_cell =
  cell_vertices :: "cell_vertex list"
  faces :: "face list"

record solid_property =
  fsi_traction :: tensor1

record SolidSolver =
  vertices :: "point list"
  solid_cells :: "solid_cell list"
  current_displacement :: "real list"
  current_acceleration :: "real list"
  stress :: "real list list list"
  solid_cell_property :: "solid_property list list"
  n_face_q_points :: nat

text \<open>
  A cell of the fluid mesh, which does not move, is known by its vertices. The
  data of a quadrature point of the fluid are the indicator, the acceleration and
  the stress of the coupling. \<open>'sol\<close> is the type of a solution vector of the
  fluid solver (velocity block and pressure block).
\<close>

record fluid_cell =
  f_vertices :: "point list"

record fluid_property =
  indicator :: bool
  fsi_acceleration :: tensor1
  fsi_stress :: tensor2

record 'sol FluidSolver =
  fluid_cells :: "fluid_cell list"
  fluid_cell_property :: "fluid_property list list"
  present_solution :: 'sol
  solution_increment :: 'sol
  n_q_points :: nat

record 'sol FSI =
  fluid_solver :: "'sol FluidSolver"
  solid_solver :: SolidSolver

text \<open>
  The routines of the finite-element library and of \<^verbatim>\<open>Utils::GridInterpolator\<close>
  that \<^verbatim>\<open>fsi.cpp\<close> calls, as parameters. The ones on the solid mesh get the
  vertices of the triangulation, since the mesh is moved before they are called.
  \<^item> \<open>point_inside vs cell p\<close>: \<^verbatim>\<open>cell->point_inside(p)\<close>;
  \<^item> \<open>quadrature_point cell q\<close>: \<^verbatim>\<open>fe_values.quadrature_point(q)\<close> on a fluid cell;
  \<^item> \<open>function_values\<close>, \<open>function_gradients\<close>, \<open>function_symmetric_gradients\<close>:
    the velocity part of a solution vector at the quadrature points of a fluid
    cell; \<open>pressure_values\<close>: its pressure part;
  \<^item> \<open>point_value vs cells field p\<close>: \<^verbatim>\<open>VectorTools::point_value\<close> on the solid
    \<^verbatim>\<open>dof_handler\<close>, which raises when no cell holds \<open>p\<close>; \<open>scalar_point_value\<close>:
    the same on \<^verbatim>\<open>scalar_dof_handler\<close>;
  \<^item> \<open>face_quadrature_point\<close> and \<open>normal_vector\<close>: \<^verbatim>\<open>fe_face_values\<close> on
    face \<open>f\<close> of a solid cell, at the quadrature point \<open>q\<close>;
  \<^item> \<open>interpolator_point_value\<close> and \<open>interpolator_point_gradient\<close>: the
    \<^verbatim>\<open>GridInterpolator\<close> built on the fluid \<^verbatim>\<open>dof_handler\<close> at a point.
\<close>

record 'sol fe_tools =
  point_inside :: "point list \<Rightarrow> solid_cell \<Rightarrow> point \<Rightarrow> bool"
  quadrature_point :: "fluid_cell \<Rightarrow> nat \<Rightarrow> point"
  function_values :: "'sol \<Rightarrow> fluid_cell \<Rightarrow> nat \<Rightarrow> tensor1"
  function_gradients :: "'sol \<Rightarrow> fluid_cell \<Rightarrow> nat \<Rightarrow> tensor2"
  function_symmetric_gradients :: "'sol \<Rightarrow> fluid_cell \<Rightarrow> nat \<Rightarrow> tensor2"
  pressure_values :: "'sol \<Rightarrow> fluid_cell \<Rightarrow> nat \<Rightarrow> real"
  point_value :: "point list \<Rightarrow> solid_cell list \<Rightarrow> real list \<Rightarrow> point \<Rightarrow> error + real list"
  scalar_point_value :: "point list \<Rightarrow> solid_cell list \<Rightarrow> real list \<Rightarrow> point \<Rightarrow> error + real list"
  face_quadrature_point :: "point list \<Rightarrow> solid_cell \<Rightarrow> nat \<Rightarrow> nat \<Rightarrow> point"
  normal_vector :: "point list \<Rightarrow> solid_cell \<Rightarrow> nat \<Rightarrow> nat \<Rightarrow> tensor1"
  interpolator_point_value :: "fluid_cell list \<Rightarrow> 'sol \<Rightarrow> point \<Rightarrow> real list"
  interpolator_point_gradient :: "fluid_cell list \<Rightarrow> 'sol \<Rightarrow> point \<Rightarrow> real list list"

subsection \<open>\<^verbatim>\<open>FSI::move_solid_mesh\<close>\<close>

text \<open>
  The body of the inner loop, for one vertex of one cell: a vertex not yet touched
  is marked, its displacement is read from \<^verbatim>\<open>current_displacement\<close> at the indices
  of its degrees of freedom, and it is moved by it, forward or backward.
\<close>

definition move_vertex ::
  "bool \<Rightarrow> real list \<Rightarrow> cell_vertex \<Rightarrow> bool list \<times> point list
     \<Rightarrow> error + bool list \<times> point list" where
  "move_vertex move_forward displacement cv = (\<lambda>(vertex_touched, vs).
     if vertex_index cv < length vertex_touched \<and> vertex_index cv < length vs
     then if \<not> vertex_touched ! vertex_index cv
          then bindE (mapE (nth_checked displacement) (vertex_dof_index cv))
                 (\<lambda>vertex_displacement.
                    Inr (vertex_touched[vertex_index cv := True],
                         vs[vertex_index cv :=
                              (if move_forward
                               then point_add (vs ! vertex_index cv) vertex_displacement
                               else point_sub (vs ! vertex_index cv) vertex_displacement)]))
          else Inr (vertex_touched, vs)
     else Inl ExcIndexRange)"

definition move_solid_mesh :: "bool \<Rightarrow> SolidSolver \<Rightarrow> error + SolidSolver" where
  "move_solid_mesh move_forward solid =
     bindE (foldE (\<lambda>cell. foldE (move_vertex move_forward (current_displacement solid))
                            (cell_vertices cell))
              (solid_cells solid)
              (replicate (length (vertices solid)) False, vertices solid))
       (\<lambda>(vertex_touched, vs). Inr (solid\<lparr>vertices := vs\<rparr>))"

subsection \<open>\<^verbatim>\<open>FSI::point_in_mesh\<close> and \<^verbatim>\<open>FSI::update_indicator\<close>\<close>

fun point_in_mesh :: "'sol fe_tools \<Rightarrow> point list \<Rightarrow> solid_cell list \<Rightarrow> point \<Rightarrow> bool" where
  "point_in_mesh tools vs [] point = False"
| "point_in_mesh tools vs (cell # cells) point =
     (if point_inside tools vs cell point then True
      else point_in_mesh tools vs cells point)"

text \<open>
  The loop over the vertices of a fluid cell, which computes \<^verbatim>\<open>is_solid\<close> and
  stops at the first vertex outside of the solid mesh.
\<close>

fun vertex_loop :: "'sol fe_tools \<Rightarrow> point list \<Rightarrow> solid_cell list \<Rightarrow> point list \<Rightarrow> bool" where
  "vertex_loop tools vs cells [] = True"
| "vertex_loop tools vs cells (point # points) =
     (if \<not> point_in_mesh tools vs cells point then False
      else vertex_loop tools vs cells points)"

definition update_indicator :: "'sol fe_tools \<Rightarrow> 'sol FSI \<Rightarrow> error + 'sol FSI" where
  "update_indicator tools fsi =
     bindE (move_solid_mesh True (solid_solver fsi)) (\<lambda>solid1.
     bindE (for_cells
              (\<lambda>f_cell p.
                 let is_solid = vertex_loop tools (vertices solid1) (solid_cells solid1)
                                  (f_vertices f_cell)
                 in foldE (\<lambda>q. store_at q (\<lambda>x. Inr (x\<lparr>indicator := is_solid\<rparr>)))
                      [0..<n_q_points (fluid_solver fsi)] p)
              (fluid_cells (fluid_solver fsi))
              (fluid_cell_property (fluid_solver fsi))) (\<lambda>properties.
     bindE (move_solid_mesh False solid1) (\<lambda>solid2.
       Inr (fsi\<lparr>fluid_solver := (fluid_solver fsi)\<lparr>fluid_cell_property := properties\<rparr>,
                solid_solver := solid2\<rparr>))))"

subsection \<open>\<^verbatim>\<open>FSI::find_fluid_bc\<close>\<close>

text \<open>
  The stress of the solid at a point. The double loop calls \<^verbatim>\<open>point_value\<close> for
  every pair \<open>(i, j)\<close> and writes the result to \<^verbatim>\<open>solid_sigma[i][j]\<close>. In a
  \<^verbatim>\<open>SymmetricTensor\<close> the entries \<open>(i, j)\<close> and \<open>(j, i)\<close> are one and the same
  component, so of the two values written to it the later one stays: the one of
  the pair with the larger first index.
\<close>

definition solid_sigma :: "'sol fe_tools \<Rightarrow> nat \<Rightarrow> SolidSolver \<Rightarrow> point \<Rightarrow> error + tensor2" where
  "solid_sigma tools spacedim solid point =
     bindE (mapE (\<lambda>i. mapE (\<lambda>j.
              bindE (nth_checked (stress solid) i) (\<lambda>row.
              bindE (nth_checked row j) (\<lambda>field.
              bindE (scalar_point_value tools (vertices solid) (solid_cells solid) field point)
                (\<lambda>sigma_ij. Inr (fit 1 sigma_ij ! 0)))))
              [0..<spacedim]) [0..<spacedim])
       (\<lambda>written. Inr (map (\<lambda>i. map (\<lambda>j. written ! max i j ! min i j) [0..<spacedim])
                          [0..<spacedim]))"

text \<open>
  The body of the loop over the quadrature points of a fluid cell, for the point
  \<open>q\<close> with the data \<open>old\<close>. The vector \<^verbatim>\<open>v\<close> of the source is allocated and never
  filled, so \<open>v q\<close> is zero; \<^verbatim>\<open>fluid_acc\<close> is computed and cast to \<^verbatim>\<open>void\<close>.
\<close>

definition fluid_bc_point ::
  "'sol fe_tools \<Rightarrow> Parameters \<Rightarrow> nat \<Rightarrow> real \<Rightarrow> SolidSolver \<Rightarrow> 'sol FluidSolver
     \<Rightarrow> fluid_cell \<Rightarrow> nat \<Rightarrow> fluid_property \<Rightarrow> error + fluid_property" where
  "fluid_bc_point tools parameters spacedim delta_t solid fluid f_cell q old =
     (let dv = function_values tools (solution_increment fluid) f_cell;
          grad_v = function_gradients tools (present_solution fluid) f_cell;
          sym_grad_v = function_symmetric_gradients tools (present_solution fluid) f_cell;
          p = pressure_values tools (present_solution fluid) f_cell;
          v = (\<lambda>q. zero_vector spacedim);
          point = quadrature_point tools f_cell q;
          ptr0 = old\<lparr>indicator := point_in_mesh tools (vertices solid) (solid_cells solid) point,
                     fsi_acceleration := zero_vector spacedim,
                     fsi_stress := zero_tensor spacedim\<rparr>
      in if \<not> indicator ptr0 then Inr ptr0
         else
           (let fluid_acc = point_add (map (\<lambda>x. x / delta_t) (dv q))
                              (tensor_apply (grad_v q) (v q))
            in bindE (point_value tools (vertices solid) (solid_cells solid)
                        (current_acceleration solid) point) (\<lambda>filled.
               let solid_acc = fit spacedim filled in
               bindE (mapE (\<lambda>i. bindE (nth_checked (gravity parameters) i)
                                   (\<lambda>g. Inr (g - solid_acc ! i))) [0..<spacedim])
                 (\<lambda>acceleration.
               bindE (solid_sigma tools spacedim solid point) (\<lambda>sigma.
                 Inr (ptr0\<lparr>fsi_acceleration := acceleration,
                           fsi_stress :=
                             tensor_sub
                               (tensor_add (tensor_scale (- p q) (unit_tensor spacedim))
                                  (tensor_scale (viscosity parameters) (sym_grad_v q)))
                               sigma\<rparr>))))))"

definition find_fluid_bc ::
  "'sol fe_tools \<Rightarrow> Parameters \<Rightarrow> nat \<Rightarrow> real \<Rightarrow> 'sol FSI \<Rightarrow> error + 'sol FSI" where
  "find_fluid_bc tools parameters spacedim delta_t fsi =
     bindE (move_solid_mesh True (solid_solver fsi)) (\<lambda>solid1.
     bindE (for_cells
              (\<lambda>f_cell ptr.
                 foldE (\<lambda>q. store_at q
                           (fluid_bc_point tools parameters spacedim delta_t solid1
                              (fluid_solver fsi) f_cell q))
                   [0..<n_q_points (fluid_solver fsi)] ptr)
              (fluid_cells (fluid_solver fsi))
              (fluid_cell_property (fluid_solver fsi))) (\<lambda>properties.
     bindE (move_solid_mesh False solid1) (\<lambda>solid2.
       Inr (fsi\<lparr>fluid_solver := (fluid_solver fsi)\<lparr>fluid_cell_property := properties\<rparr>,
                solid_solver := solid2\<rparr>))))"

text \<open>
  What a caller of \<^verbatim>\<open>find_fluid_bc\<close> can read of the accelerations: the error, or
  the \<^verbatim>\<open>fsi_acceleration\<close> of every quadrature point of every fluid cell.
\<close>

definition stored_accelerations :: "error + 'sol FSI \<Rightarrow> error + tensor1 list list" where
  "stored_accelerations result =
     map_sum id (\<lambda>fsi. map (map fsi_acceleration) (fluid_cell_property (fluid_solver fsi)))
       result"

text \<open>Two data of a quadrature point that differ at most in the stress.\<close>

definition same_but_stress :: "fluid_property \<Rightarrow> fluid_property \<Rightarrow> bool" where
  "same_but_stress a b \<longleftrightarrow>
     indicator a = indicator b \<and> fsi_acceleration a = fsi_acceleration b"

text \<open>
  The difference of the accelerations in terms of the gravity of the parameters
  and of the acceleration of the solid at a point alone.
\<close>

definition acceleration_difference ::
  "'sol fe_tools \<Rightarrow> Parameters \<Rightarrow> nat \<Rightarrow> SolidSolver \<Rightarrow> point \<Rightarrow> error + tensor1" where
  "acceleration_difference tools parameters spacedim solid point =
     bindE (point_value tools (vertices solid) (solid_cells solid)
              (current_acceleration solid) point) (\<lambda>filled.
     mapE (\<lambda>i. bindE (nth_checked (gravity parameters) i)
                  (\<lambda>g. Inr (g - fit spacedim filled ! i))) [0..<spacedim])"

subsection \<open>\<^verbatim>\<open>FSI::find_solid_bc\<close>\<close>

text \<open>
  The traction at the quadrature point \<open>q\<close> of face \<open>f\<close>: the pressure is the
  entry \<open>dim\<close> of the interpolated value (a vector of \<open>dim + 1\<close> entries), the
  gradient has \<open>dim + 1\<close> rows of \<open>dim\<close> entries.
\<close>

definition fit_rows :: "nat \<Rightarrow> nat \<Rightarrow> real list list \<Rightarrow> real list list" where
  "fit_rows n m rows = map (fit m) (take n (rows @ replicate n []))"

definition face_traction ::
  "'sol fe_tools \<Rightarrow> Parameters \<Rightarrow> nat \<Rightarrow> 'sol FluidSolver \<Rightarrow> point list \<Rightarrow> solid_cell
     \<Rightarrow> nat \<Rightarrow> nat \<Rightarrow> tensor1" where
  "face_traction tools parameters spacedim fluid vs s_cell f q =
     (let q_point = face_quadrature_point tools vs s_cell f q;
          normal = normal_vector tools vs s_cell f q;
          value = fit (spacedim + 1)
                    (interpolator_point_value tools (fluid_cells fluid)
                       (present_solution fluid) q_point);
          gradient = fit_rows (spacedim + 1) spacedim
                       (interpolator_point_gradient tools (fluid_cells fluid)
                          (present_solution fluid) q_point);
          sym_deformation =
            map (\<lambda>i. map (\<lambda>j. (gradient ! i ! j + gradient ! j ! i) / 2) [0..<spacedim])
              [0..<spacedim];
          stress = tensor_add (tensor_scale (- (value ! spacedim)) (unit_tensor spacedim))
                     (tensor_scale (viscosity parameters) sym_deformation)
      in tensor_apply stress normal)"

text \<open>
  The loops over the cells of the solid, the faces of a cell and the quadrature
  points of a face. The only condition on a face is \<^verbatim>\<open>at_boundary()\<close>.
\<close>

definition find_solid_bc ::
  "'sol fe_tools \<Rightarrow> Parameters \<Rightarrow> nat \<Rightarrow> 'sol FSI \<Rightarrow> error + 'sol FSI" where
  "find_solid_bc tools parameters spacedim fsi =
     bindE (move_solid_mesh True (solid_solver fsi)) (\<lambda>solid1.
     bindE (for_cells
              (\<lambda>s_cell ptr.
                 foldE (\<lambda>f ptr.
                          if at_boundary (faces s_cell ! f)
                          then foldE (\<lambda>q. store_at (f * n_face_q_points solid1 + q)
                                       (\<lambda>x. Inr (x\<lparr>fsi_traction :=
                                          face_traction tools parameters spacedim
                                            (fluid_solver fsi) (vertices solid1) s_cell f q\<rparr>)))
                                 [0..<n_face_q_points solid1] ptr
                          else Inr ptr)
                   [0..<length (faces s_cell)] ptr)
              (solid_cells solid1)
              (solid_cell_property solid1)) (\<lambda>properties.
     bindE (move_solid_mesh False (solid1\<lparr>solid_cell_property := properties\<rparr>)) (\<lambda>solid2.
       Inr (fsi\<lparr>solid_solver := solid2\<rparr>))))"

text \<open>
  Modelled from the spec: a face "with an externally imposed Dirichlet condition"
  is a boundary face whose boundary id is one of the ids the parameters list for
  the Dirichlet conditions of the solid (the parameter class is not in the files
  at hand).
\<close>

definition has_dirichlet_bc :: "Parameters \<Rightarrow> face \<Rightarrow> bool" where
  "has_dirichlet_bc parameters fc \<longleftrightarrow>
     at_boundary fc \<and> boundary_id fc \<in> set (solid_dirichlet_bcs parameters)"

subsection \<open>Well-shaped meshes\<close>

text \<open>The shape of a mesh on which every access of \<open>move_solid_mesh\<close> is in range.\<close>

definition vertex_ok :: "nat \<Rightarrow> nat \<Rightarrow> nat \<Rightarrow> cell_vertex \<Rightarrow> bool" where
  "vertex_ok spacedim n_vertices n_entries cv \<longleftrightarrow>
     vertex_index cv < n_vertices \<and> length (vertex_dof_index cv) = spacedim
     \<and> list_all (\<lambda>i. i < n_entries) (vertex_dof_index cv)"

definition points_ok :: "nat \<Rightarrow> point list \<Rightarrow> bool" where
  "points_ok spacedim vs \<longleftrightarrow> list_all (\<lambda>p. length p = spacedim) vs"

definition solid_ok :: "nat \<Rightarrow> SolidSolver \<Rightarrow> bool" where
  "solid_ok spacedim solid \<longleftrightarrow>
     points_ok spacedim (vertices solid)
     \<and> list_all (\<lambda>cell. list_all (vertex_ok spacedim (length (vertices solid))
                                    (length (current_displacement solid)))
                           (cell_vertices cell))
         (solid_cells solid)"

text \<open>
  The data of the fluid cells: one list for each cell, with an entry for each
  quadrature point.
\<close>

definition fluid_ok :: "'sol FluidSolver \<Rightarrow> bool" where
  "fluid_ok fluid \<longleftrightarrow>
     length (fluid_cell_property fluid) = length (fluid_cells fluid)
     \<and> list_all (\<lambda>p. n_q_points fluid \<le> length p) (fluid_cell_property fluid)"

subsection \<open>A small instance\<close>

text \<open>
  Two quadrilateral cells of a solid in the plane, side by side, with six vertices
  and two degrees of freedom at each vertex. The displacement stretches the mesh
  by one quarter along the first axis and by one half along the second.
\<close>

definition two_cells :: SolidSolver where
  "two_cells =
     \<lparr>vertices = [[0, 0], [1, 0], [0, 1], [1, 1], [2, 0], [2, 1]],
      solid_cells =
        [\<lparr>cell_vertices =
            [\<lparr>vertex_index = 0, vertex_dof_index = [0, 1]\<rparr>,
             \<lparr>vertex_index = 1, vertex_dof_index = [2, 3]\<rparr>,
             \<lparr>vertex_index = 2, vertex_dof_index = [4, 5]\<rparr>,
             \<lparr>vertex_index = 3, vertex_dof_index = [6, 7]\<rparr>],
          faces = [\<lparr>at_boundary = True, boundary_id = 0\<rparr>,
                   \<lparr>at_boundary = False, boundary_id = 0\<rparr>,
                   \<lparr>at_boundary = True, boundary_id = 2\<rparr>,
                   \<lparr>at_boundary = True, boundary_id = 3\<rparr>]\<rparr>,
         \<lparr>cell_vertices =
            [\<lparr>vertex_index = 1, vertex_dof_index = [2, 3]\<rparr>,
             \<lparr>vertex_index = 4, vertex_dof_index = [8, 9]\<rparr>,
             \<lparr>vertex_index = 3, vertex_dof_index = [6, 7]\<rparr>,
             \<lparr>vertex_index = 5, vertex_dof_index = [10, 11]\<rparr>],
          faces = [\<lparr>at_boundary = False, boundary_id = 0\<rparr>,
                   \<lparr>at_boundary = True, boundary_id = 1\<rparr>,
                   \<lparr>at_boundary = True, boundary_id = 2\<rparr>,
                   \<lparr>at_boundary = True, boundary_id = 3\<rparr>]\<rparr>],
      current_displacement = [0, 0, 1 / 4, 0, 0, 1 / 2, 1 / 4, 1 / 2, 1 / 2, 0, 1 / 2, 1 / 2],
      current_acceleration = [1, 2, 1, 0, 0, 1, 1, 1, 2, 0, 2, 1],
      stress = [[[1, 1, 1, 1, 1, 1], [0, 0, 0, 0, 0, 0]],
                [[0, 0, 0, 0, 0, 0], [2, 2, 2, 2, 2, 2]]],
      solid_cell_property =
        [replicate 8 \<lparr>fsi_traction = [0, 0]\<rparr>, replicate 8 \<lparr>fsi_traction = [0, 0]\<rparr>],
      n_face_q_points = 2\<rparr>"

text \<open>
  Routines to run the functions with. A solution of the fluid is the list of a
  velocity, constant over the mesh and along the first axis, and a constant
  pressure. A point is inside of a cell when it is between the least and the
  largest coordinates of its vertices; \<open>point_value\<close> raises for a point in no
  cell, and returns the first entries of the field otherwise. Every fluid cell has
  one quadrature point, the midpoint of its first and its last vertex.
\<close>

definition in_box :: "point list \<Rightarrow> solid_cell \<Rightarrow> point \<Rightarrow> bool" where
  "in_box vs cell p \<longleftrightarrow>
     list_ex (\<lambda>cv. vs ! vertex_index cv ! 0 \<le> p ! 0) (cell_vertices cell)
     \<and> list_ex (\<lambda>cv. p ! 0 \<le> vs ! vertex_index cv ! 0) (cell_vertices cell)
     \<and> list_ex (\<lambda>cv. vs ! vertex_index cv ! 1 \<le> p ! 1) (cell_vertices cell)
     \<and> list_ex (\<lambda>cv. p ! 1 \<le> vs ! vertex_index cv ! 1) (cell_vertices cell)"

definition box_tools :: "real list fe_tools" where
  "box_tools =
     \<lparr>point_inside = in_box,
      quadrature_point = (\<lambda>cell q. map2 (\<lambda>a b. (a + b) / 2) (hd (f_vertices cell))
                                     (last (f_vertices cell))),
      function_values = (\<lambda>sol cell q. [sol ! 0, 0]),
      function_gradients = (\<lambda>sol cell q. [[0, sol ! 0], [0, 0]]),
      function_symmetric_gradients = (\<lambda>sol cell q. [[0, sol ! 0 / 2], [sol ! 0 / 2, 0]]),
      pressure_values = (\<lambda>sol cell q. sol ! 1),
      point_value = (\<lambda>vs cells field p.
         if list_ex (\<lambda>cell. in_box vs cell p) cells then Inr (take 2 field)
         else Inl ExcPointNotInDomain),
      scalar_point_value = (\<lambda>vs cells field p.
         if list_ex (\<lambda>cell. in_box vs cell p) cells then Inr (take 1 field)
         else Inl ExcPointNotInDomain),
      face_quadrature_point = (\<lambda>vs cell f q. vs ! vertex_index (cell_vertices cell ! 0)),
      normal_vector = (\<lambda>vs cell f q. [1, 0]),
      interpolator_point_value = (\<lambda>cells sol p. [sol ! 0, 0, sol ! 1]),
      interpolator_point_gradient = (\<lambda>cells sol p. [[0, sol ! 0], [0, 0], [0, 0]])\<rparr>"

text \<open>
  A fluid with two cells, the first inside of the moved solid and the second far
  from it, with stale data at their quadrature points.
\<close>

definition stale :: fluid_property where
  "stale = \<lparr>indicator = True, fsi_acceleration = [9, 9], fsi_stress = [[9, 9], [9, 9]]\<rparr>"

definition two_fluid_cells :: "real list \<Rightarrow> real list \<Rightarrow> real list FluidSolver" where
  "two_fluid_cells sol inc =
     \<lparr>fluid_cells =
        [\<lparr>f_vertices = [[1 / 4, 1 / 4], [1 / 2, 1 / 4], [1 / 4, 1 / 2], [1 / 2, 1 / 2]]\<rparr>,
         \<lparr>f_vertices = [[5, 5], [6, 5], [5, 6], [6, 6]]\<rparr>],
      fluid_cell_property = [[stale], [stale]],
      present_solution = sol,
      solution_increment = inc,
      n_q_points = 1\<rparr>"

definition coupled :: "real list \<Rightarrow> real list \<Rightarrow> real list FSI" where
  "coupled sol inc = \<lparr>fluid_solver = two_fluid_cells sol inc, solid_solver = two_cells\<rparr>"

definition coupling_parameters :: "nat list \<Rightarrow> Parameters" where
  "coupling_parameters ids =
     \<lparr>type = ''NeoHookean'', C = [1], rho = 1, max_iterations_NR = 10, tol_u = 1 / 10,
      tol_f = 1 / 10, viscosity = 2, gravity = [0, - 10], solid_dirichlet_bcs = ids\<rparr>"

subsection \<open>The displaced solid mesh\<close>

text \<open>
  The solid domain as it is displaced at the moment, in terms of the reference
  mesh and the displacement field alone: a vertex of the triangulation that is a
  vertex of some cell stands at its reference position plus the displacement
  stored at its degrees of freedom (as the first cell that has the vertex numbers
  them); a vertex of no cell stays where it is.
\<close>

definition displaced_vertex :: "SolidSolver \<Rightarrow> nat \<Rightarrow> point" where
  "displaced_vertex solid i =
     (case find (\<lambda>cv. vertex_index cv = i) (concat (map cell_vertices (solid_cells solid))) of
        None \<Rightarrow> vertices solid ! i
      | Some cv \<Rightarrow>
          point_add (vertices solid ! i)
            (map ((!) (current_displacement solid)) (vertex_dof_index cv)))"

definition displaced_vertices :: "SolidSolver \<Rightarrow> point list" where
  "displaced_vertices solid = map (displaced_vertex solid) [0..<length (vertices solid)]"

text \<open>
  A fluid whose first cell is beyond the reference mesh of \<open>two_cells\<close>, which ends
  at 2 and at 1 along the two axes, and inside of the displaced one; its data say
  that it is not covered, and the data of the second, far cell say that it is.
\<close>

definition fluid_at_the_rim :: "real list FluidSolver" where
  "fluid_at_the_rim =
     \<lparr>fluid_cells =
        [\<lparr>f_vertices = [[9 / 4, 5 / 4], [19 / 8, 5 / 4], [9 / 4, 11 / 8], [19 / 8, 11 / 8]]\<rparr>,
         \<lparr>f_vertices = [[5, 5], [6, 5], [5, 6], [6, 6]]\<rparr>],
      fluid_cell_property = [[stale\<lparr>indicator := False\<rparr>], [stale]],
      present_solution = [1, 3],
      solution_increment = [0, 0],
      n_q_points = 1\<rparr>"

definition coupled_at_the_rim :: "real list FSI" where
  "coupled_at_the_rim = \<lparr>fluid_solver = fluid_at_the_rim, solid_solver = two_cells\<rparr>"

text \<open>
  The data of the solid cells: one list for each cell, with an entry for each
  quadrature point of each face.
\<close>

definition solid_data_ok :: "SolidSolver \<Rightarrow> bool" where
  "solid_data_ok solid \<longleftrightarrow>
     length (solid_cell_property solid) = length (solid_cells solid)
     \<and> list_all2 (\<lambda>cell p. length (faces cell) * n_face_q_points solid \<le> length p)
         (solid_cells solid) (solid_cell_property solid)"

section \<open>Properties of the Newton-Raphson driver\<close>

lemma unat_of_nat_32: "k < 2 ^ 32 \<Longrightarrow> unat (of_nat k :: 32 word) = k"
  by (simp add: unat_of_nat)

lemma of_nat_eq_0_32: "k < 2 ^ 32 \<Longrightarrow> (of_nat k :: 32 word) = 0 \<longleftrightarrow> k = 0"
proof
  assume "k < 2 ^ 32" and "(of_nat k :: 32 word) = 0"
  then have "unat (of_nat k :: 32 word) = 0" by simp
  with \<open>k < 2 ^ 32\<close> show "k = 0" by (simp add: unat_of_nat_32)
qed simp

lemma residual_phase_fields:
  "errorResidual (residual_phase ops w s) = getErrorResidual ops (assembleGlobalRHS ops (zero_system ops (fe s)))"
  "fe (residual_phase ops w s) = assembleGlobalRHS ops (zero_system ops (fe s))"
  "errorUpdate (residual_phase ops w s) = errorUpdate s"
  "errorUpdate0 (residual_phase ops w s) = errorUpdate0 s"
  "errorUpdateNorm (residual_phase ops w s) = errorUpdateNorm s"
  "errorResidual0 (residual_phase ops w s) =
     (if w = 0 then getErrorResidual ops (assembleGlobalRHS ops (zero_system ops (fe s)))
      else errorResidual0 s)"
  "errorResidualNorm (residual_phase ops w s) =
     normalize ops (getErrorResidual ops (assembleGlobalRHS ops (zero_system ops (fe s))))
       (if w = 0 then getErrorResidual ops (assembleGlobalRHS ops (zero_system ops (fe s)))
        else errorResidual0 s)"
  by (simp_all add: residual_phase_def Let_def)

lemma update_phase_fields:
  "errorResidual0 (fst (update_phase ops w (s, r))) = errorResidual0 s"
  "errorUpdate (fst (update_phase ops w (s, r))) =
     (let (nu, f2) = solveLinearSystem ops
             (condense ops (make_constraints ops w (assembleGlobalTangent ops (fe s)))) (snd r)
      in getErrorUpdate ops f2 nu)"
  "errorUpdate0 (fst (update_phase ops w (s, r))) =
     (if w = 0 then errorUpdate (fst (update_phase ops w (s, r))) else errorUpdate0 s)"
  "errorUpdateNorm (fst (update_phase ops w (s, r))) =
     normalize ops (errorUpdate (fst (update_phase ops w (s, r))))
       (errorUpdate0 (fst (update_phase ops w (s, r))))"
  by (cases r; simp add: update_phase_def Let_def split: prod.splits)+

lemma residual_at_eq:
  "errorResidual (residual_phase ops w (fst (state_at ops st0 k))) = residual_at ops st0 k"
  by (simp add: residual_phase_fields residual_at_def)

lemma update_at_eq:
  "errorUpdate (fst (state_at ops st0 (Suc k))) = update_at ops st0 k"
  by (simp add: update_phase_fields residual_phase_fields update_at_def Let_def)

lemma baseline_residual:
  "k < 2 ^ 32 \<Longrightarrow>
   errorResidual0 (residual_phase ops (of_nat k) (fst (state_at ops st0 k))) = residual_at ops st0 0"
proof (induction k)
  case 0
  show ?case by (simp add: residual_phase_fields residual_at_def)
next
  case (Suc k)
  then have "errorResidual0 (fst (state_at ops st0 (Suc k))) = residual_at ops st0 0"
    by (simp add: update_phase_fields)
  with Suc.prems show ?case
    by (simp add: residual_phase_fields(6) of_nat_eq_0_32 del: state_at.simps of_nat_Suc)
qed

lemma baseline_update:
  "k < 2 ^ 32 \<Longrightarrow> errorUpdate0 (fst (state_at ops st0 (Suc k))) = update_at ops st0 0"
proof (induction k)
  case 0
  have "errorUpdate0 (fst (state_at ops st0 (Suc 0))) = errorUpdate (fst (state_at ops st0 (Suc 0)))"
    by (simp add: update_phase_fields(3))
  then show ?case by (simp only: update_at_eq)
next
  case (Suc k)
  have "errorUpdate0 (fst (state_at ops st0 (Suc (Suc k)))) =
        errorUpdate0 (residual_phase ops (of_nat (Suc k)) (fst (state_at ops st0 (Suc k))))"
    using Suc.prems by (simp add: update_phase_fields(3) of_nat_eq_0_32 del: of_nat_Suc)
  with Suc show ?case
    by (simp add: residual_phase_fields del: state_at.simps of_nat_Suc)
qed

lemma update_norm_at:
  "k < 2 ^ 32 \<Longrightarrow>
   errorUpdateNorm (fst (state_at ops st0 (Suc k)))
     = normalize ops (update_at ops st0 k) (update_at ops st0 0)"
proof -
  assume k: "k < 2 ^ 32"
  have "errorUpdateNorm (fst (state_at ops st0 (Suc k)))
          = normalize ops (errorUpdate (fst (state_at ops st0 (Suc k))))
              (errorUpdate0 (fst (state_at ops st0 (Suc k))))"
    by (simp add: update_phase_fields(4))
  with k show ?thesis
    by (simp only: update_at_eq baseline_update)
qed

text \<open>The test of the code at iteration k is the test of the specification.\<close>

lemma converged_iff_convergence_test:
  assumes "k < 2 ^ 32"
  shows "converged parameters (of_nat k)
           (residual_phase ops (of_nat k) (fst (state_at ops st0 k)))
         \<longleftrightarrow> convergence_test ops parameters st0 k"
proof (cases k)
  case 0
  then show ?thesis by (simp add: converged_def convergence_test_def)
next
  case (Suc j)
  with assms have j: "j < 2 ^ 32" by simp
  have pos: "(0 :: 32 word) < of_nat k"
    using assms Suc by (simp add: word_greater_zero_iff of_nat_eq_0_32 del: of_nat_Suc)
  have rn: "errorResidualNorm (residual_phase ops (of_nat k) (fst (state_at ops st0 k)))
             = normalize ops (residual_at ops st0 k) (residual_at ops st0 0)"
    using baseline_residual [OF assms, of ops st0] residual_at_eq [of ops "of_nat k" st0 k]
    by (simp add: residual_phase_def Let_def)
  have un: "errorUpdateNorm (residual_phase ops (of_nat k) (fst (state_at ops st0 k)))
             = normalize ops (update_at ops st0 j) (update_at ops st0 0)"
    using update_norm_at [OF j, of ops st0] Suc
    by (simp add: residual_phase_fields(5) del: state_at.simps)
  from Suc have kj: "k - 1 = j" "0 < k" by simp_all
  show ?thesis
    unfolding converged_def convergence_test_def rn un kj using pos kj(2) by simp
qed

lemma of_nat_less_max:
  "i \<le> unat (M :: 32 word) \<Longrightarrow> (of_nat i < M) \<longleftrightarrow> i < unat M"
proof -
  assume "i \<le> unat M"
  moreover have "unat M < 2 ^ 32" using unsigned_less [of M, where ?'a = nat] by simp
  ultimately have "unat (of_nat i :: 32 word) = i" by (simp add: unat_of_nat_32)
  then show ?thesis by (simp add: word_less_nat_alt)
qed

lemma newton_loop_step:
  assumes "i < unat (max_iterations_NR parameters)"
    and "\<not> convergence_test ops parameters st0 i"
  shows "newton_loop ops parameters (of_nat i) (state_at ops st0 i)
         = newton_loop ops parameters (of_nat (Suc i)) (state_at ops st0 (Suc i))"
proof -
  have i32: "i < 2 ^ 32" using assms(1) unsigned_less [of "max_iterations_NR parameters", where ?'a = nat] by simp
  have lt: "(of_nat i :: 32 word) < max_iterations_NR parameters"
    using assms(1) by (simp add: of_nat_less_max)
  have nc: "\<not> converged parameters (of_nat i)
               (residual_phase ops (of_nat i) (fst (state_at ops st0 i)))"
    using assms(2) by (simp add: converged_iff_convergence_test [OF i32])
  show ?thesis
    by (subst newton_loop.simps) (simp add: lt nc Let_def add.commute)
qed

lemma newton_loop_break:
  assumes "j < unat (max_iterations_NR parameters)"
    and "convergence_test ops parameters st0 j"
  shows "newton_loop ops parameters (of_nat j) (state_at ops st0 j)
         = (of_nat j, residual_phase ops (of_nat j) (fst (state_at ops st0 j)),
            snd (state_at ops st0 j))"
proof -
  have j32: "j < 2 ^ 32" using assms(1) unsigned_less [of "max_iterations_NR parameters", where ?'a = nat] by simp
  have lt: "(of_nat j :: 32 word) < max_iterations_NR parameters"
    using assms(1) by (simp add: of_nat_less_max)
  have c: "converged parameters (of_nat j)
               (residual_phase ops (of_nat j) (fst (state_at ops st0 j)))"
    using assms(2) by (simp add: converged_iff_convergence_test [OF j32])
  show ?thesis
    by (subst newton_loop.simps) (simp add: lt c Let_def)
qed

lemma newton_loop_end:
  "newton_loop ops parameters (max_iterations_NR parameters) st
     = (max_iterations_NR parameters, st)"
  by (subst newton_loop.simps) simp

lemma newton_loop_skip:
  assumes "k \<le> j" and "j \<le> unat (max_iterations_NR parameters)"
    and "\<forall>i. k \<le> i \<and> i < j \<longrightarrow> \<not> convergence_test ops parameters st0 i"
  shows "newton_loop ops parameters (of_nat k) (state_at ops st0 k)
         = newton_loop ops parameters (of_nat j) (state_at ops st0 j)"
  using assms
proof (induction "j - k" arbitrary: k)
  case 0
  then show ?case by simp
next
  case (Suc n)
  then have "k < j" by simp
  with Suc.prems have "k < unat (max_iterations_NR parameters)"
    and "\<not> convergence_test ops parameters st0 k" by simp_all
  then have "newton_loop ops parameters (of_nat k) (state_at ops st0 k)
         = newton_loop ops parameters (of_nat (Suc k)) (state_at ops st0 (Suc k))"
    by (rule newton_loop_step)
  also have "\<dots> = newton_loop ops parameters (of_nat j) (state_at ops st0 j)"
  proof (rule Suc.hyps(1))
    show "n = j - Suc k" using Suc.hyps(2) by simp
    show "Suc k \<le> j" using \<open>k < j\<close> by simp
    show "j \<le> unat (max_iterations_NR parameters)" by (rule Suc.prems(2))
    show "\<forall>i. Suc k \<le> i \<and> i < j \<longrightarrow> \<not> convergence_test ops parameters st0 i"
      using Suc.prems(3) by simp
  qed
  finally show ?case .
qed

lemma newton_loop_counter_ge:
  "newton_iteration \<le> fst (newton_loop ops parameters newton_iteration st)"
proof (induction ops parameters newton_iteration st rule: newton_loop.induct)
  case (1 ops parameters newton_iteration st)
  show ?case
  proof (cases "newton_iteration < max_iterations_NR parameters
                \<and> \<not> converged parameters newton_iteration
                       (residual_phase ops newton_iteration (fst st))")
    case True
    then have "newton_iteration + 1
                 \<le> fst (newton_loop ops parameters (newton_iteration + 1)
                      (update_phase ops newton_iteration
                         (residual_phase ops newton_iteration (fst st), snd st)))"
      using "1.IH" by simp
    moreover have "newton_iteration \<le> newton_iteration + 1"
      using True by unat_arith
    ultimately show ?thesis
      using True by (subst newton_loop.simps) (simp add: Let_def)
  next
    case False
    then show ?thesis by (subst newton_loop.simps) (auto simp: Let_def)
  qed
qed

text \<open>
  Claim C1. When no iteration below \<^verbatim>\<open>max_iterations_NR\<close> satisfies the convergence
  test, the loop runs until its counter reaches the maximum, and
  \<^verbatim>\<open>solveNonlinearTimestep\<close> ends in the exception "No convergence in nonlinear
  solver!": the state iterated so far is not returned.
\<close>

theorem no_convergence_is_fatal:
  assumes "\<forall>k. k < unat (max_iterations_NR parameters)
             \<longrightarrow> \<not> convergence_test ops parameters (start ops s solution_delta) k"
  shows "solveNonlinearTimestep ops parameters s solution_delta
         = Inl (ExcMessage ''No convergence in nonlinear solver!'')"
proof -
  let ?st0 = "(start ops s solution_delta)"
  let ?M = "max_iterations_NR parameters"
  have "newton_loop ops parameters (of_nat 0) (state_at ops ?st0 0)
          = newton_loop ops parameters (of_nat (unat ?M)) (state_at ops ?st0 (unat ?M))"
    by (rule newton_loop_skip) (use assms in simp_all)
  then have "newton_loop ops parameters 0 ?st0 = (?M, state_at ops ?st0 (unat ?M))"
    by (simp add: newton_loop_end)
  then show ?thesis by (simp add: solveNonlinearTimestep_def)
qed

text \<open>
  Claim C2. Let iteration \<open>j\<close> be reached: it is below the maximum and no earlier
  iteration left the loop. Then the loop is left in iteration \<open>j\<close> (with the counter
  equal to \<open>j\<close>, by \<^verbatim>\<open>break\<close>) exactly when \<open>0 < j\<close>, the error of the last Newton
  update normalised by the one of iteration 0 is at most \<open>tol_u\<close>, and the error of
  the residual normalised by the one of iteration 0 is at most \<open>tol_f\<close>. The
  baselines stored in \<^verbatim>\<open>errorResidual0\<close> and \<^verbatim>\<open>errorUpdate0\<close> at that moment are
  the errors measured in iteration 0.
\<close>

theorem loop_stops_iff_convergence_test:
  assumes "j < unat (max_iterations_NR parameters)"
    and "\<forall>i<j. \<not> convergence_test ops parameters st0 i"
  shows "(newton_loop ops parameters 0 st0
            = (of_nat j, residual_phase ops (of_nat j) (fst (state_at ops st0 j)),
               snd (state_at ops st0 j))
          \<longleftrightarrow> convergence_test ops parameters st0 j)
       \<and> (fst (newton_loop ops parameters 0 st0) = of_nat j
          \<longleftrightarrow> convergence_test ops parameters st0 j)
       \<and> errorResidual0 (residual_phase ops (of_nat j) (fst (state_at ops st0 j)))
           = residual_at ops st0 0
       \<and> (0 < j \<longrightarrow> errorUpdate0 (residual_phase ops (of_nat j) (fst (state_at ops st0 j)))
           = update_at ops st0 0)"
proof -
  let ?M = "max_iterations_NR parameters"
  have j32: "j < 2 ^ 32"
    using assms(1) unsigned_less [of ?M, where ?'a = nat] by simp
  have skip: "newton_loop ops parameters 0 st0
          = newton_loop ops parameters (of_nat j) (state_at ops st0 j)"
    using newton_loop_skip [of 0 j parameters ops st0] assms by simp
  have stop: "newton_loop ops parameters 0 st0
            = (of_nat j, residual_phase ops (of_nat j) (fst (state_at ops st0 j)),
               snd (state_at ops st0 j))" if "convergence_test ops parameters st0 j"
    using skip newton_loop_break [OF assms(1) that] by simp
  have go: "fst (newton_loop ops parameters 0 st0) \<noteq> of_nat j"
    if "\<not> convergence_test ops parameters st0 j"
  proof -
    have "newton_loop ops parameters 0 st0
          = newton_loop ops parameters (of_nat (Suc j)) (state_at ops st0 (Suc j))"
      using skip newton_loop_step [OF assms(1) that] by simp
    then have "(of_nat (Suc j) :: 32 word) \<le> fst (newton_loop ops parameters 0 st0)"
      using newton_loop_counter_ge [of "of_nat (Suc j)" ops parameters "state_at ops st0 (Suc j)"]
      by simp
    moreover have "(of_nat j :: 32 word) < of_nat (Suc j)"
    proof -
      have "Suc j \<le> unat ?M" using assms(1) by simp
      then have "unat (of_nat (Suc j) :: 32 word) = Suc j"
        using unsigned_less [of ?M, where ?'a = nat] by (simp add: unat_of_nat_32 del: of_nat_Suc)
      moreover have "unat (of_nat j :: 32 word) = j" using j32 by (simp add: unat_of_nat_32)
      ultimately show ?thesis by (simp add: word_less_nat_alt del: of_nat_Suc)
    qed
    ultimately show ?thesis by auto
  qed
  have base_r: "errorResidual0 (residual_phase ops (of_nat j) (fst (state_at ops st0 j)))
           = residual_at ops st0 0"
    by (rule baseline_residual [OF j32])
  have base_u: "errorUpdate0 (residual_phase ops (of_nat j) (fst (state_at ops st0 j)))
           = update_at ops st0 0" if "0 < j"
  proof -
    from that obtain i where i: "j = Suc i" by (cases j) simp_all
    with j32 have "i < 2 ^ 32" by simp
    then show ?thesis
      unfolding i residual_phase_fields(4) by (rule baseline_update)
  qed
  from stop go base_r base_u show ?thesis by (metis fst_conv)
qed

lemmas halving_run =
  convergence_test_def update_at_def residual_at_def halving_def update_phase_def
  residual_phase_def solver8_def newton_parameters_def reset_errors_def start_def Let_def

text \<open>
  The instance with two iterations allowed and a tolerance of one tenth: the
  normalised error of the first update is 1, so the step fails.
\<close>

theorem no_convergence_is_fatal_witness:
  "\<not> convergence_test halving (newton_parameters 2 (1 / 10))
        (start halving solver8 [0]) 0
   \<and> \<not> convergence_test halving (newton_parameters 2 (1 / 10))
        (start halving solver8 [0]) 1
   \<and> unat (max_iterations_NR (newton_parameters 2 (1 / 10))) = 2
   \<and> solveNonlinearTimestep halving (newton_parameters 2 (1 / 10)) solver8 [0]
       = Inl (ExcMessage ''No convergence in nonlinear solver!'')"
proof -
  have h: "\<forall>k. k < unat (max_iterations_NR (newton_parameters 2 (1 / 10)))
        \<longrightarrow> \<not> convergence_test halving (newton_parameters 2 (1 / 10))
               (start halving solver8 [0]) k"
  proof (intro allI impI)
    fix k :: nat
    assume "k < unat (max_iterations_NR (newton_parameters 2 (1 / 10)))"
    then have "k = 0 \<or> k = 1" by (auto simp: newton_parameters_def)
    then show "\<not> convergence_test halving (newton_parameters 2 (1 / 10))
               (start halving solver8 [0]) k"
      by (auto simp: halving_run)
  qed
  have "unat (max_iterations_NR (newton_parameters 2 (1 / 10))) = 2"
    by (simp add: newton_parameters_def)
  with h no_convergence_is_fatal [OF h] show ?thesis by simp
qed

text \<open>
  The instance with five iterations allowed and a tolerance of six tenths: the
  loop is left in iteration 2, with the baseline 8 of iteration 0.
\<close>

theorem loop_stops_iff_convergence_test_witness:
  "newton_loop halving (newton_parameters 5 (6 / 10)) 0 (solver8, [0], [0])
     = (2, residual_phase halving 2 (fst (state_at halving (solver8, [0], [0]) 2)),
        snd (state_at halving (solver8, [0], [0]) 2))
   \<and> convergence_test halving (newton_parameters 5 (6 / 10)) (solver8, [0], [0]) 2
   \<and> \<not> convergence_test halving (newton_parameters 5 (6 / 10)) (solver8, [0], [0]) 1
   \<and> errorResidual0 (residual_phase halving 2 (fst (state_at halving (solver8, [0], [0]) 2)))
       = \<lparr>norm_E = 8, u = 8\<rparr>"
proof -
  have t1: "\<not> convergence_test halving (newton_parameters 5 (6 / 10)) (solver8, [0], [0]) 1"
    by (simp add: halving_run)
  have t0: "\<not> convergence_test halving (newton_parameters 5 (6 / 10)) (solver8, [0], [0]) 0"
    by (simp add: convergence_test_def)
  have t2: "convergence_test halving (newton_parameters 5 (6 / 10)) (solver8, [0], [0]) 2"
    by (simp add: halving_run numeral_2_eq_2)
  have r0: "residual_at halving (solver8, [0], [0]) 0 = \<lparr>norm_E = 8, u = 8\<rparr>"
    by (simp add: halving_run)
  have j: "(2::nat) < unat (max_iterations_NR (newton_parameters 5 (6 / 10)))"
    by (simp add: newton_parameters_def)
  have b: "\<forall>i<2. \<not> convergence_test halving (newton_parameters 5 (6 / 10)) (solver8, [0], [0]) i"
    using t0 t1 by (auto simp: less_2_cases_iff)
  from loop_stops_iff_convergence_test [OF j b] t1 t2 r0 show ?thesis by simp
qed


section \<open>Properties of the quadrature point history\<close>

lemma Kinematics_F_zero:
  "spacedim = 2 \<or> spacedim = 3 \<Longrightarrow>
   Kinematics_F spacedim (zero_tensor spacedim) = unit_tensor spacedim"
  by (auto simp: Kinematics_F_def zero_tensor_def unit_tensor_def tensor_add_def
        numeral_2_eq_2 numeral_3_eq_3)

lemma unit_tensor_2: "unit_tensor 2 = [[1, 0], [0, 1]]"
  by (simp add: unit_tensor_def numeral_2_eq_2)

lemma unit_tensor_3: "unit_tensor 3 = [[1, 0, 0], [0, 1, 0], [0, 0, 1]]"
  by (simp add: unit_tensor_def numeral_3_eq_3)

lemma invert_unit:
  "spacedim = 2 \<or> spacedim = 3 \<Longrightarrow> invert (unit_tensor spacedim) = unit_tensor spacedim"
  by (auto simp: unit_tensor_2 unit_tensor_3 tensor_scale_def)

lemma determinant_unit:
  "spacedim = 2 \<or> spacedim = 3 \<Longrightarrow> determinant (unit_tensor spacedim) = 1"
  by (auto simp: unit_tensor_2 unit_tensor_3)

lemma update_result:
  "material this = Some m \<Longrightarrow>
   PointHistory_update law spacedim this Grad_u =
     Inr (this\<lparr>material := Some (updateData law m (Kinematics_F spacedim Grad_u)),
               FInv := invert (Kinematics_F spacedim Grad_u),
               tau := kirchhoff_stress law (nh_mu m) (nh_rho m) (Kinematics_F spacedim Grad_u),
               Jc := tangent_modulus law (nh_mu m) (nh_rho m) (Kinematics_F spacedim Grad_u),
               dPsi_vol_dJ := dPsi_vol law (nh_mu m) (nh_rho m) (Kinematics_F spacedim Grad_u),
               d2Psi_vol_dJ2 := d2Psi_vol law (nh_mu m) (nh_rho m) (Kinematics_F spacedim Grad_u)\<rparr>)"
  by (simp add: PointHistory_update_def Let_def bindE_def getTau_def getJc_def
        get_dPsi_vol_dJ_def get_d2Psi_vol_dJ2_def accessor_def updateData_def)

lemma update_null: "material this = None \<Longrightarrow>
   PointHistory_update law spacedim this Grad_u = Inl NullPointerDereference"
  by (simp add: PointHistory_update_def)

lemma updateData_twice: "updateData law (updateData law m F) F = updateData law m F"
  by (simp add: updateData_def)

lemma setup_unknown_type:
  "type parameters \<noteq> ''NeoHookean'' \<Longrightarrow>
   PointHistory_setup law spacedim this parameters = Inl ExcNotImplemented"
  by (simp add: PointHistory_setup_def)

lemma setup_missing_constants:
  "type parameters = ''NeoHookean'' \<Longrightarrow> C parameters = [] \<Longrightarrow>
   PointHistory_setup law spacedim this parameters = Inl ExcInternalError"
  by (simp add: PointHistory_setup_def Let_def)

lemma setup_null_material:
  "type parameters = ''NeoHookean'' \<Longrightarrow> material this = None \<Longrightarrow>
   PointHistory_setup law spacedim this parameters = Inl ExcInternalError"
  by (simp add: PointHistory_setup_def Let_def)

lemma setup_is_update:
  "type parameters = ''NeoHookean'' \<Longrightarrow> C parameters \<noteq> [] \<Longrightarrow> material this = Some m \<Longrightarrow>
   PointHistory_setup law spacedim this parameters
     = PointHistory_update law spacedim this (zero_tensor spacedim)"
  by (simp add: PointHistory_setup_def Let_def)

lemma setup_ignores_constants:
  assumes "type p = ''NeoHookean''" "C p \<noteq> []" "type p' = ''NeoHookean''" "C p' \<noteq> []"
  shows "PointHistory_setup law spacedim this p = PointHistory_setup law spacedim this p'"
  using assms by (simp add: PointHistory_setup_def Let_def)

text \<open>
  Claim C7. \<^verbatim>\<open>setup\<close> does fail on a material type other than "NeoHookean" and on an
  empty list of constants (the three lemmas above). It does not install the
  configured material: for the configuration "NeoHookean" with \<open>C = [5]\<close> and
  \<open>rho = 2\<close>, a history that holds a material with the constants 1 and 1 holds the
  same constants after \<^verbatim>\<open>setup\<close>, and a history with a null \<open>material\<close> makes
  \<^verbatim>\<open>setup\<close> fail although the configuration is valid.
\<close>

theorem setup_keeps_old_material:
  "(\<exists>this'. PointHistory_setup linear_law 2 (history_with (Some (NeoHookean_new 1 1)))
              (material_parameters ''NeoHookean'' [5] 2) = Inr this'
           \<and> map_option nh_mu (material this') = Some 1
           \<and> map_option nh_rho (material this') = Some 1)
   \<and> PointHistory_setup linear_law 2 (history_with None)
        (material_parameters ''NeoHookean'' [5] 2) = Inl ExcInternalError"
  by (simp add: PointHistory_setup_def Let_def material_parameters_def history_with_def
        update_result NeoHookean_new_def updateData_def)

text \<open>
  What does hold of \<^verbatim>\<open>setup\<close> followed by \<^verbatim>\<open>update\<close> with the zero displacement
  gradient, on a history that holds a material already: both return, and
  afterwards the deformation gradient held by the material is the unit tensor,
  \<open>FInv\<close> is the unit tensor, \<open>J = det F = 1\<close>, and \<open>tau\<close> is the stress that the
  constitutive law gives for the undeformed state and the constants of the
  material held, which are not the configured ones.
\<close>

lemma setup_update_identity:
  assumes "spacedim = 2 \<or> spacedim = 3"
    and "type parameters = ''NeoHookean''" and "C parameters \<noteq> []"
    and "material this = Some m"
  shows "\<exists>this1 this2 m2.
           PointHistory_setup law spacedim this parameters = Inr this1
         \<and> PointHistory_update law spacedim this1 (zero_tensor spacedim) = Inr this2
         \<and> material this2 = Some m2
         \<and> map_option data_F (nh_data m2) = Some (unit_tensor spacedim)
         \<and> FInv this2 = unit_tensor spacedim
         \<and> getDetF m2 = Inr 1
         \<and> tau this2 = kirchhoff_stress law (nh_mu m2) (nh_rho m2) (unit_tensor spacedim)"
proof -
  let ?I = "unit_tensor spacedim"
  let ?m1 = "updateData law m ?I"
  have F: "Kinematics_F spacedim (zero_tensor spacedim) = ?I"
    by (rule Kinematics_F_zero [OF assms(1)])
  have s: "PointHistory_setup law spacedim this parameters
             = PointHistory_update law spacedim this (zero_tensor spacedim)"
    by (rule setup_is_update [OF assms(2-4)])
  obtain this1 where t1: "PointHistory_update law spacedim this (zero_tensor spacedim) = Inr this1"
    and m1: "material this1 = Some ?m1"
    using update_result [OF assms(4), of law spacedim "zero_tensor spacedim"] F by simp
  obtain this2 where t2: "PointHistory_update law spacedim this1 (zero_tensor spacedim) = Inr this2"
    and m2: "material this2 = Some (updateData law ?m1 ?I)"
    and f2: "FInv this2 = invert ?I"
    and tau2: "tau this2 = kirchhoff_stress law (nh_mu ?m1) (nh_rho ?m1) ?I"
    using update_result [OF m1, of law spacedim "zero_tensor spacedim"] F by simp
  have "getDetF (updateData law ?m1 ?I) = Inr 1"
    using determinant_unit [OF assms(1)] by (simp add: getDetF_def accessor_def updateData_def)
  moreover have "map_option data_F (nh_data (updateData law ?m1 ?I)) = Some ?I"
    by (simp add: updateData_def)
  moreover have "nh_mu (updateData law ?m1 ?I) = nh_mu ?m1" "nh_rho (updateData law ?m1 ?I) = nh_rho ?m1"
    by (simp_all add: updateData_def)
  ultimately show ?thesis
    using s t1 t2 m2 f2 tau2 invert_unit [OF assms(1)] by simp
qed

text \<open>
  In two dimensions, with the law \<open>linear_law\<close>: the stress of the undeformed
  state is zero.
\<close>

lemma setup_update_identity_instance:
  "\<exists>this1 this2 m2.
       PointHistory_setup linear_law 2 (history_with (Some (NeoHookean_new 3 1)))
         (material_parameters ''NeoHookean'' [3] 1) = Inr this1
     \<and> PointHistory_update linear_law 2 this1 (zero_tensor 2) = Inr this2
     \<and> material this2 = Some m2
     \<and> map_option data_F (nh_data m2) = Some [[1, 0], [0, 1]]
     \<and> FInv this2 = [[1, 0], [0, 1]]
     \<and> getDetF m2 = Inr 1
     \<and> tau this2 = [[0, 0], [0, 0]]"
proof -
  have stress_free: "kirchhoff_stress linear_law a b [[1, 0], [0, 1]] = [[0, 0], [0, 0]]" for a b
    by (simp add: linear_law_def unit_tensor_def tensor_scale_def tensor_sub_def)
  have "(2::nat) = 2 \<or> (2::nat) = 3"
    and "type (material_parameters ''NeoHookean'' [3] 1) = ''NeoHookean''"
    and "C (material_parameters ''NeoHookean'' [3] 1) \<noteq> []"
    and "material (history_with (Some (NeoHookean_new 3 1))) = Some (NeoHookean_new 3 1)"
    by (simp_all add: material_parameters_def history_with_def)
  from setup_update_identity [OF this, of linear_law] show ?thesis
    unfolding unit_tensor_2 stress_free .
qed

text \<open>
  Claim C8. The configuration "NeoHookean" with \<open>C = [3]\<close> and \<open>rho = 1\<close> is valid,
  and on a history whose \<open>material\<close> is null, \<^verbatim>\<open>setup\<close> raises: there is no state
  with \<open>F = I\<close> after \<^verbatim>\<open>setup\<close> and \<^verbatim>\<open>update\<close>. On a history that holds a material
  with the constants 1 and 1, the configuration with \<open>C = [5]\<close> and \<open>rho = 2\<close>
  leaves these constants, and the derivative of the volumetric energy stored
  after \<^verbatim>\<open>setup\<close> and \<^verbatim>\<open>update\<close> is the one of the constant 1 (under \<open>linear_law\<close>
  the second derivative is the shear modulus), not of the configured 5.
\<close>

theorem setup_then_update_misses_configuration:
  "type (material_parameters ''NeoHookean'' [3] 1) = ''NeoHookean''
   \<and> C (material_parameters ''NeoHookean'' [3] 1) \<noteq> []
   \<and> PointHistory_setup linear_law 2 (history_with None)
         (material_parameters ''NeoHookean'' [3] 1) = Inl ExcInternalError
   \<and> bindE (PointHistory_setup linear_law 2 (history_with None)
                (material_parameters ''NeoHookean'' [3] 1))
         (\<lambda>this1. PointHistory_update linear_law 2 this1 (zero_tensor 2))
       = Inl ExcInternalError
   \<and> (\<exists>this1 this2.
          PointHistory_setup linear_law 2 (history_with (Some (NeoHookean_new 1 1)))
            (material_parameters ''NeoHookean'' [5] 2) = Inr this1
        \<and> PointHistory_update linear_law 2 this1 (zero_tensor 2) = Inr this2
        \<and> map_option nh_mu (material this2) = Some 1
        \<and> map_option nh_rho (material this2) = Some 1
        \<and> d2Psi_vol_dJ2 this2 = 1
        \<and> d2Psi_vol linear_law 5 2 (unit_tensor 2) = 5)"
proof -
  let ?p = "material_parameters ''NeoHookean'' [3] 1"
  have valid: "type ?p = ''NeoHookean''" "C ?p \<noteq> []"
    by (simp_all add: material_parameters_def)
  have null: "PointHistory_setup linear_law 2 (history_with None) ?p = Inl ExcInternalError"
    by (rule setup_null_material) (simp_all add: material_parameters_def history_with_def)
  have held: "\<exists>this1 this2.
          PointHistory_setup linear_law 2 (history_with (Some (NeoHookean_new 1 1)))
            (material_parameters ''NeoHookean'' [5] 2) = Inr this1
        \<and> PointHistory_update linear_law 2 this1 (zero_tensor 2) = Inr this2
        \<and> map_option nh_mu (material this2) = Some 1
        \<and> map_option nh_rho (material this2) = Some 1
        \<and> d2Psi_vol_dJ2 this2 = 1
        \<and> d2Psi_vol linear_law 5 2 (unit_tensor 2) = 5"
    by (simp add: PointHistory_setup_def Let_def material_parameters_def history_with_def
          update_result NeoHookean_new_def updateData_def linear_law_def)
  from valid null held show ?thesis by (simp add: bindE_def)
qed

lemma update_again:
  assumes "material this = Some m"
    and "PointHistory_update law spacedim this Grad_u = Inr this1"
  shows "PointHistory_update law spacedim this1 Grad_u = Inr this1"
proof -
  let ?F = "Kinematics_F spacedim Grad_u"
  have m1: "material this1 = Some (updateData law m ?F)"
    using assms(2) unfolding update_result [OF assms(1)] by auto
  have c: "nh_mu (updateData law m ?F) = nh_mu m" "nh_rho (updateData law m ?F) = nh_rho m"
    by (simp_all add: updateData_def)
  show ?thesis
    using assms(2) unfolding update_result [OF m1] update_result [OF assms(1)] updateData_twice c
    by auto
qed

text \<open>With a null \<open>material\<close> both calls fail in the same way.\<close>

lemma update_twice_as_once:
  "bindE (PointHistory_update law spacedim this Grad_u)
     (\<lambda>this1. PointHistory_update law spacedim this1 Grad_u)
   = PointHistory_update law spacedim this Grad_u"
proof (cases "material this")
  case None
  then show ?thesis by (simp add: update_null bindE_def)
next
  case (Some m)
  then obtain this1 where t1: "PointHistory_update law spacedim this Grad_u = Inr this1"
    by (simp add: update_result)
  with update_again [OF Some t1] show ?thesis by (simp add: bindE_def)
qed

text \<open>
  Claim C9. A second \<^verbatim>\<open>update\<close> with the same displacement gradient returns the
  state the first one returned: the material data, \<open>FInv\<close>, \<open>tau\<close>, \<open>Jc\<close> and the
  two derivatives of the volumetric energy are all the same.
\<close>

theorem update_idempotent:
  assumes "material this = Some m"
  shows "\<exists>this1. PointHistory_update law spacedim this Grad_u = Inr this1
           \<and> PointHistory_update law spacedim this1 Grad_u = Inr this1"
proof -
  obtain this1 where t1: "PointHistory_update law spacedim this Grad_u = Inr this1"
    using assms by (simp add: update_result)
  with update_again [OF assms t1] show ?thesis by blast
qed

text \<open>
  In two dimensions, for a stretch of one tenth and one fifth along the axes.
\<close>

theorem update_idempotent_witness:
  "\<exists>this1. PointHistory_update linear_law 2 (history_with (Some (NeoHookean_new 3 1)))
              [[1 / 10, 0], [0, 1 / 5]] = Inr this1
           \<and> PointHistory_update linear_law 2 this1 [[1 / 10, 0], [0, 1 / 5]] = Inr this1"
  using update_idempotent [where law = linear_law and spacedim = 2
      and this = "history_with (Some (NeoHookean_new 3 1))" and m = "NeoHookean_new 3 1"
      and Grad_u = "[[1 / 10, 0], [0, 1 / 5]]"]
  by (simp add: history_with_def)


section \<open>Properties of the coupling\<close>

subsection \<open>Loops\<close>

lemma bindE_Inr [simp]: "bindE (Inr x) f = f x"
  by (simp add: bindE_def)

lemma bindE_Inl [simp]: "bindE (Inl e) f = Inl e"
  by (simp add: bindE_def)

lemma bindE_eq_Inr: "bindE m f = Inr y \<longleftrightarrow> (\<exists>x. m = Inr x \<and> f x = Inr y)"
  by (cases m) simp_all

lemma foldE_append: "foldE body (xs @ ys) s = bindE (foldE body xs s) (foldE body ys)"
  by (induction xs arbitrary: s) (simp_all add: bindE_def split: sum.splits)

lemma foldE_concat:
  "foldE (\<lambda>c. foldE body (g c)) cs s = foldE body (concat (map g cs)) s"
  by (induction cs arbitrary: s) (simp_all add: foldE_append bindE_def split: sum.splits)

lemma mapE_nth_checked:
  "\<forall>i\<in>set is. i < length xs \<Longrightarrow> mapE (nth_checked xs) is = Inr (map ((!) xs) is)"
  by (induction "is") (simp_all add: nth_checked_def)

subsection \<open>Moving the solid mesh\<close>

lemma add_sub_cancel:
  "length a = length b \<Longrightarrow> length b = length d \<Longrightarrow>
   point_add (point_add a d) (point_sub b d) = point_add a b"
  unfolding point_add_def point_sub_def
  by (induction a b d rule: list_induct3) simp_all

lemma point_add_left_cancel:
  "length a = length b \<Longrightarrow> length b = length c \<Longrightarrow>
   point_add a b = point_add a c \<Longrightarrow> b = c"
  unfolding point_add_def
  by (induction a b c rule: list_induct3) simp_all

lemma move_vertex_pair:
  assumes ok: "vertex_ok spacedim (length A) (length displacement) cv"
    and len: "length t = length A" "length B = length A"
    and shape: "points_ok spacedim A" "points_ok spacedim B"
  shows "\<exists>t' A' B'.
           move_vertex True displacement cv (t, A) = Inr (t', A')
         \<and> move_vertex False displacement cv (t, B) = Inr (t', B')
         \<and> length t' = length A \<and> length A' = length A \<and> length B' = length A
         \<and> points_ok spacedim A' \<and> points_ok spacedim B'
         \<and> (\<forall>i<length A. point_add (A' ! i) (B' ! i) = point_add (A ! i) (B ! i))"
proof -
  let ?i = "vertex_index cv"
  let ?d = "map ((!) displacement) (vertex_dof_index cv)"
  have i: "?i < length A" and ld: "length ?d = spacedim"
    and d: "mapE (nth_checked displacement) (vertex_dof_index cv) = Inr ?d"
    using ok by (simp_all add: vertex_ok_def mapE_nth_checked list_all_iff)
  have lA: "length (A ! ?i) = spacedim" and lB: "length (B ! ?i) = spacedim"
    using shape i len by (simp_all add: points_ok_def list_all_length)
  show ?thesis
  proof (cases "t ! ?i")
    case True
    then show ?thesis
      using i len shape by (simp add: move_vertex_def)
  next
    case False
    have sA: "points_ok spacedim (A[?i := point_add (A ! ?i) ?d])"
      using shape(1) lA ld i
      by (auto simp: points_ok_def list_all_length nth_list_update point_add_def)
    have sB: "points_ok spacedim (B[?i := point_sub (B ! ?i) ?d])"
      using shape(2) lB ld i len
      by (auto simp: points_ok_def list_all_length nth_list_update point_sub_def)
    have "point_add (A[?i := point_add (A ! ?i) ?d] ! k) (B[?i := point_sub (B ! ?i) ?d] ! k)
            = point_add (A ! k) (B ! k)" if "k < length A" for k
    proof (cases "k = ?i")
      case True
      have "point_add (point_add (A ! ?i) ?d) (point_sub (B ! ?i) ?d)
              = point_add (A ! ?i) (B ! ?i)"
        by (rule add_sub_cancel) (simp_all only: lA lB ld)
      with True i len show ?thesis by simp
    next
      case False
      then show ?thesis by simp
    qed
    then show ?thesis
      using False i len d sA sB by (simp add: move_vertex_def)
  qed
qed

lemma move_loop_pair:
  assumes "list_all (vertex_ok spacedim (length A) (length displacement)) cvs"
    and "length t = length A" "length B = length A"
    and "points_ok spacedim A" "points_ok spacedim B"
  shows "\<exists>t' A' B'.
           foldE (move_vertex True displacement) cvs (t, A) = Inr (t', A')
         \<and> foldE (move_vertex False displacement) cvs (t, B) = Inr (t', B')
         \<and> length A' = length A \<and> length B' = length A
         \<and> points_ok spacedim A' \<and> points_ok spacedim B'
         \<and> (\<forall>i<length A. point_add (A' ! i) (B' ! i) = point_add (A ! i) (B ! i))"
  using assms
proof (induction cvs arbitrary: t A B)
  case Nil
  then show ?case by simp
next
  case (Cons cv cvs)
  from Cons.prems have ok: "vertex_ok spacedim (length A) (length displacement) cv"
    and oks: "list_all (vertex_ok spacedim (length A) (length displacement)) cvs" by simp_all
  from move_vertex_pair [OF ok Cons.prems(2-5)]
  obtain t1 A1 B1 where
    s: "move_vertex True displacement cv (t, A) = Inr (t1, A1)"
       "move_vertex False displacement cv (t, B) = Inr (t1, B1)"
    and l: "length t1 = length A" "length A1 = length A" "length B1 = length A"
    and p: "points_ok spacedim A1" "points_ok spacedim B1"
    and e: "\<forall>i<length A. point_add (A1 ! i) (B1 ! i) = point_add (A ! i) (B ! i)"
    by blast
  from Cons.IH [of A1 t1 B1] oks l p
  obtain t2 A2 B2 where
    s2: "foldE (move_vertex True displacement) cvs (t1, A1) = Inr (t2, A2)"
        "foldE (move_vertex False displacement) cvs (t1, B1) = Inr (t2, B2)"
    and l2: "length A2 = length A" "length B2 = length A"
    and p2: "points_ok spacedim A2" "points_ok spacedim B2"
    and e2: "\<forall>i<length A. point_add (A2 ! i) (B2 ! i) = point_add (A1 ! i) (B1 ! i)"
    by auto
  from s s2 l2 p2 e e2 show ?case by simp
qed

lemma point_add_commute: "point_add a b = point_add b a"
  unfolding point_add_def
  by (rule nth_equalityI) (simp_all add: add.commute)

lemma move_forward_then_backward_aux:
  assumes "solid_ok spacedim solid"
  shows "\<exists>vs. move_solid_mesh True solid = Inr (solid\<lparr>vertices := vs\<rparr>)
           \<and> move_solid_mesh False (solid\<lparr>vertices := vs\<rparr>) = Inr solid"
proof -
  let ?A = "vertices solid"
  let ?t = "replicate (length ?A) False"
  let ?d = "current_displacement solid"
  let ?cvs = "concat (map cell_vertices (solid_cells solid))"
  have oks: "list_all (vertex_ok spacedim (length ?A) (length ?d)) ?cvs"
    using assms by (auto simp: solid_ok_def list_all_iff)
  have pA: "points_ok spacedim ?A" using assms by (simp add: solid_ok_def)
  from move_loop_pair [OF oks _ _ pA pA, of ?t]
  obtain t1 A1 where f1: "foldE (move_vertex True ?d) ?cvs (?t, ?A) = Inr (t1, A1)"
    and l1: "length A1 = length ?A" and p1: "points_ok spacedim A1"
    by auto
  from move_loop_pair [OF oks _ _ pA p1, of ?t] l1 f1
  obtain B1 where b1: "foldE (move_vertex False ?d) ?cvs (?t, A1) = Inr (t1, B1)"
    and lB: "length B1 = length ?A" and pB: "points_ok spacedim B1"
    and e: "\<forall>i<length ?A. point_add (A1 ! i) (B1 ! i) = point_add (?A ! i) (A1 ! i)"
    by auto
  have "B1 = ?A"
  proof (rule nth_equalityI)
    show "length B1 = length ?A" by (rule lB)
  next
    fix i assume i: "i < length B1"
    with e lB have "point_add (A1 ! i) (B1 ! i) = point_add (A1 ! i) (?A ! i)"
      by (simp add: point_add_commute)
    moreover have "length (A1 ! i) = length (B1 ! i)" "length (B1 ! i) = length (?A ! i)"
      using i lB l1 p1 pB pA by (simp_all add: points_ok_def list_all_length)
    ultimately show "B1 ! i = ?A ! i" by (rule point_add_left_cancel [rotated 2])
  qed
  with b1 have b: "foldE (move_vertex False ?d) ?cvs (?t, A1) = Inr (t1, ?A)" by simp
  have "move_solid_mesh True solid = Inr (solid\<lparr>vertices := A1\<rparr>)"
    by (simp add: move_solid_mesh_def foldE_concat f1)
  moreover have "move_solid_mesh False (solid\<lparr>vertices := A1\<rparr>) = Inr solid"
    by (simp add: move_solid_mesh_def foldE_concat l1 b)
  ultimately show ?thesis by blast
qed

text \<open>
  Claim C6. On a well-shaped solid mesh, \<^verbatim>\<open>move_solid_mesh(true)\<close> returns, and
  \<^verbatim>\<open>move_solid_mesh(false)\<close> on its result returns the solver it started from:
  every vertex is back at its position, whatever the displacement field is (in
  exact arithmetic).
\<close>

theorem move_forward_then_backward:
  assumes "solid_ok spacedim solid"
  shows "\<exists>solid1. move_solid_mesh True solid = Inr solid1
           \<and> move_solid_mesh False solid1 = Inr solid"
  using move_forward_then_backward_aux [OF assms] by blast

lemma two_cells_ok: "solid_ok 2 two_cells"
  by (simp add: solid_ok_def two_cells_def points_ok_def vertex_ok_def)

lemma two_cells_moved:
  "move_solid_mesh True two_cells
     = Inr (two_cells\<lparr>vertices :=
              [[0, 0], [5 / 4, 0], [0, 3 / 2], [5 / 4, 3 / 2], [5 / 2, 0], [5 / 2, 3 / 2]]\<rparr>)"
  by (simp add: move_solid_mesh_def two_cells_def move_vertex_def nth_checked_def
        point_add_def)

text \<open>
  The two cells: the vertices they share are moved once, and all of them come
  back.
\<close>

theorem move_forward_then_backward_witness:
  "move_solid_mesh True two_cells
     = Inr (two_cells\<lparr>vertices :=
              [[0, 0], [5 / 4, 0], [0, 3 / 2], [5 / 4, 3 / 2], [5 / 2, 0], [5 / 2, 3 / 2]]\<rparr>)
   \<and> move_solid_mesh False (two_cells\<lparr>vertices :=
              [[0, 0], [5 / 4, 0], [0, 3 / 2], [5 / 4, 3 / 2], [5 / 2, 0], [5 / 2, 3 / 2]]\<rparr>)
     = Inr two_cells"
  using move_forward_then_backward [OF two_cells_ok] by (simp add: two_cells_moved)

subsection \<open>The indicator\<close>

lemma point_in_mesh_iff:
  "point_in_mesh tools vs cells point \<longleftrightarrow> (\<exists>cell\<in>set cells. point_inside tools vs cell point)"
  by (induction cells) simp_all

lemma vertex_loop_iff:
  "vertex_loop tools vs cells points
     \<longleftrightarrow> (\<forall>point\<in>set points. point_in_mesh tools vs cells point)"
  by (induction points) simp_all

lemma store_loop:
  "n \<le> length p \<Longrightarrow>
   \<exists>r. foldE (\<lambda>q. store_at q (\<lambda>x. Inr (g x))) [0..<n] p = Inr r
     \<and> length r = length p \<and> (\<forall>i<length p. r ! i = (if i < n then g (p ! i) else p ! i))"
proof (induction n)
  case 0
  then show ?case by simp
next
  case (Suc n)
  then obtain r where r: "foldE (\<lambda>q. store_at q (\<lambda>x. Inr (g x))) [0..<n] p = Inr r"
    and l: "length r = length p"
    and v: "\<forall>i<length p. r ! i = (if i < n then g (p ! i) else p ! i)"
    by auto
  have "foldE (\<lambda>q. store_at q (\<lambda>x. Inr (g x))) [0..<Suc n] p = Inr (r[n := g (r ! n)])"
    using r l Suc.prems by (simp add: foldE_append store_at_def)
  moreover have "\<forall>i<length p. r[n := g (r ! n)] ! i = (if i < Suc n then g (p ! i) else p ! i)"
    using v l Suc.prems by (auto simp: nth_list_update less_Suc_eq)
  ultimately show ?case using l by simp
qed

lemma for_cells_Inr:
  "length cs = length ps \<Longrightarrow>
   for_cells body cs ps = Inr rs
     \<longleftrightarrow> length rs = length cs \<and> (\<forall>i<length cs. body (cs ! i) (ps ! i) = Inr (rs ! i))"
proof (induction cs ps arbitrary: rs rule: list_induct2)
  case Nil
  then show ?case by auto
next
  case (Cons c cs p ps)
  show ?case
  proof (cases rs)
    case Nil
    then show ?thesis by (auto simp: bindE_eq_Inr)
  next
    case (Cons r rs')
    have "(\<forall>i<Suc (length cs). body ((c # cs) ! i) ((p # ps) ! i) = Inr ((r # rs') ! i))
          \<longleftrightarrow> body c p = Inr r \<and> (\<forall>i<length cs. body (cs ! i) (ps ! i) = Inr (rs' ! i))"
      by (auto simp: less_Suc_eq_0_disj)
    then show ?thesis
      using Cons Cons.IH [of rs'] by (auto simp: bindE_eq_Inr)
  qed
qed

lemma for_cells_total:
  "length cs = length ps \<Longrightarrow> \<forall>i<length cs. \<exists>r. body (cs ! i) (ps ! i) = Inr r \<Longrightarrow>
   \<exists>rs. for_cells body cs ps = Inr rs"
proof (induction cs ps rule: list_induct2)
  case Nil
  then show ?case by simp
next
  case (Cons c cs p ps)
  from Cons.prems have "\<exists>r. body c p = Inr r" by auto
  moreover from Cons.prems have "\<forall>i<length cs. \<exists>r. body (cs ! i) (ps ! i) = Inr r"
    by auto
  ultimately show ?case using Cons.IH by auto
qed

text \<open>
  \<^verbatim>\<open>update_indicator\<close> in terms of the mesh that \<^verbatim>\<open>move_solid_mesh(true)\<close> returns.
\<close>

lemma update_indicator_scan:
  assumes "solid_ok spacedim (solid_solver fsi)" and "fluid_ok (fluid_solver fsi)"
  shows "\<exists>solid1 fsi'.
           move_solid_mesh True (solid_solver fsi) = Inr solid1
         \<and> update_indicator tools fsi = Inr fsi'
         \<and> solid_solver fsi' = solid_solver fsi
         \<and> (\<forall>i<length (fluid_cells (fluid_solver fsi)). \<forall>q<n_q_points (fluid_solver fsi).
               indicator (fluid_cell_property (fluid_solver fsi') ! i ! q)
               \<longleftrightarrow> (\<forall>point\<in>set (f_vertices (fluid_cells (fluid_solver fsi) ! i)).
                      \<exists>cell\<in>set (solid_cells solid1).
                        point_inside tools (vertices solid1) cell point))"
proof -
  let ?fluid = "fluid_solver fsi"
  let ?n = "n_q_points ?fluid"
  from move_forward_then_backward_aux [OF assms(1)]
  obtain solid1 where m1: "move_solid_mesh True (solid_solver fsi) = Inr solid1"
    and m2: "move_solid_mesh False solid1 = Inr (solid_solver fsi)" by blast
  let ?flag = "\<lambda>f_cell. vertex_loop tools (vertices solid1) (solid_cells solid1) (f_vertices f_cell)"
  let ?body = "\<lambda>f_cell p.
                 let is_solid = ?flag f_cell
                 in foldE (\<lambda>q. store_at q (\<lambda>x. Inr (x\<lparr>indicator := is_solid\<rparr>))) [0..<?n] p"
  have len: "length (fluid_cells ?fluid) = length (fluid_cell_property ?fluid)"
    and enough: "\<forall>i<length (fluid_cells ?fluid). ?n \<le> length (fluid_cell_property ?fluid ! i)"
    using assms(2) by (simp_all add: fluid_ok_def list_all_length)
  have each: "\<exists>r. ?body (fluid_cells ?fluid ! i) (fluid_cell_property ?fluid ! i) = Inr r
               \<and> (\<forall>q<?n. indicator (r ! q) = ?flag (fluid_cells ?fluid ! i))"
    if "i < length (fluid_cells ?fluid)" for i
  proof -
    from that enough have n: "?n \<le> length (fluid_cell_property ?fluid ! i)" by simp
    from store_loop [OF n, of "\<lambda>x. x\<lparr>indicator := ?flag (fluid_cells ?fluid ! i)\<rparr>"]
    obtain r where r: "?body (fluid_cells ?fluid ! i) (fluid_cell_property ?fluid ! i) = Inr r"
      and v: "\<forall>k<length (fluid_cell_property ?fluid ! i). r ! k =
             (if k < ?n then (fluid_cell_property ?fluid ! i ! k)
                               \<lparr>indicator := ?flag (fluid_cells ?fluid ! i)\<rparr>
              else fluid_cell_property ?fluid ! i ! k)"
      by (auto simp: Let_def)
    have "indicator (r ! q) = ?flag (fluid_cells ?fluid ! i)" if "q < ?n" for q
    proof -
      from that n have "q < length (fluid_cell_property ?fluid ! i)" by simp
      with v that show ?thesis by simp
    qed
    with r show ?thesis by blast
  qed
  then obtain properties where
    fc: "for_cells ?body (fluid_cells ?fluid) (fluid_cell_property ?fluid) = Inr properties"
    using for_cells_total [OF len, of ?body] by blast
  have "indicator (properties ! i ! q) = ?flag (fluid_cells ?fluid ! i)"
    if "i < length (fluid_cells ?fluid)" "q < ?n" for i q
    using each [OF that(1)] fc that unfolding for_cells_Inr [OF len] by auto
  then have ind: "\<forall>i<length (fluid_cells ?fluid). \<forall>q<?n.
      indicator (properties ! i ! q)
        \<longleftrightarrow> (\<forall>point\<in>set (f_vertices (fluid_cells ?fluid ! i)).
               \<exists>cell\<in>set (solid_cells solid1).
                 point_inside tools (vertices solid1) cell point)"
    by (simp add: vertex_loop_iff point_in_mesh_iff)
  have "update_indicator tools fsi
          = Inr (fsi\<lparr>fluid_solver := ?fluid\<lparr>fluid_cell_property := properties\<rparr>,
                     solid_solver := solid_solver fsi\<rparr>)"
    unfolding update_indicator_def using m1 m2 fc by simp
  with m1 ind show ?thesis by simp
qed

lemma moved_vertices:
  "move_solid_mesh True two_cells = Inr s1 \<Longrightarrow>
   vertices s1 = [[0, 0], [5 / 4, 0], [0, 3 / 2], [5 / 4, 3 / 2], [5 / 2, 0], [5 / 2, 3 / 2]]
   \<and> solid_cells s1 = solid_cells two_cells"
  by (auto simp: two_cells_moved)

lemma coupled_ok: "solid_ok 2 (solid_solver (coupled sol inc))" "fluid_ok (fluid_solver (coupled sol inc))"
  by (simp_all add: coupled_def two_cells_ok fluid_ok_def two_fluid_cells_def)

subsection \<open>The displaced mesh\<close>

text \<open>
  \<^verbatim>\<open>move_solid_mesh(true)\<close> puts the vertices where \<open>displaced_vertices\<close> says.
\<close>

lemma mapE_nth_checked_Inr:
  "mapE (nth_checked xs) is = Inr d \<Longrightarrow> d = map ((!) xs) is"
  by (induction "is" arbitrary: d)
     (auto simp: nth_checked_def bindE_eq_Inr split: if_splits)

lemma move_vertex_forward_Inr:
  assumes "move_vertex True displacement cv (t, A) = Inr (t', A')"
  shows "vertex_index cv < length t \<and> vertex_index cv < length A
         \<and> (if t ! vertex_index cv then t' = t \<and> A' = A
             else t' = t[vertex_index cv := True]
                \<and> A' = A[vertex_index cv :=
                          point_add (A ! vertex_index cv)
                            (map ((!) displacement) (vertex_dof_index cv))])"
  using assms
  by (auto simp: move_vertex_def bindE_eq_Inr split: if_splits dest: mapE_nth_checked_Inr)

lemma move_loop_forward:
  assumes "foldE (move_vertex True displacement) cvs (t, A) = Inr (t', A')"
    and "length t = length A"
  shows "length A' = length A
         \<and> (\<forall>i<length A. A' ! i =
               (if t ! i then A ! i
                else case find (\<lambda>cv. vertex_index cv = i) cvs of
                       None \<Rightarrow> A ! i
                     | Some cv \<Rightarrow> point_add (A ! i)
                                  (map ((!) displacement) (vertex_dof_index cv))))"
  using assms
proof (induction cvs arbitrary: t A)
  case Nil
  then show ?case by simp
next
  case (Cons cv cvs)
  let ?k = "vertex_index cv"
  let ?d = "map ((!) displacement) (vertex_dof_index cv)"
  from Cons.prems(1) obtain t1 A1 where
    s1: "move_vertex True displacement cv (t, A) = Inr (t1, A1)"
    and s2: "foldE (move_vertex True displacement) cvs (t1, A1) = Inr (t', A')"
    by (auto simp: bindE_eq_Inr)
  note mv = move_vertex_forward_Inr [OF s1]
  show ?case
  proof (cases "t ! ?k")
    case True
    with mv have eq: "t1 = t" "A1 = A" by simp_all
    from Cons.IH [OF s2 [unfolded eq] Cons.prems(2)] True show ?thesis by auto
  next
    case False
    with mv have eq: "t1 = t[?k := True]" "A1 = A[?k := point_add (A ! ?k) ?d]"
      and k: "?k < length A" by simp_all
    have l1: "length t1 = length A1" using eq Cons.prems(2) by simp
    from Cons.IH [OF s2 l1] have lA: "length A' = length A1"
      and v: "\<forall>i<length A1. A' ! i =
               (if t1 ! i then A1 ! i
                else case find (\<lambda>cv. vertex_index cv = i) cvs of
                       None \<Rightarrow> A1 ! i
                     | Some cv \<Rightarrow> point_add (A1 ! i)
                                  (map ((!) displacement) (vertex_dof_index cv)))"
      by simp_all
    have "A' ! i =
               (if t ! i then A ! i
                else case find (\<lambda>cv. vertex_index cv = i) (cv # cvs) of
                       None \<Rightarrow> A ! i
                     | Some cv \<Rightarrow> point_add (A ! i)
                                  (map ((!) displacement) (vertex_dof_index cv)))"
      if i: "i < length A" for i
    proof (cases "i = ?k")
      case True
      with v i eq k Cons.prems(2) False show ?thesis by simp
    next
      case neq: False
      then have same: "A1 ! i = A ! i" "t1 ! i = t ! i" by (simp_all add: eq)
      from v i eq have "A' ! i =
               (if t1 ! i then A1 ! i
                else case find (\<lambda>cv. vertex_index cv = i) cvs of
                       None \<Rightarrow> A1 ! i
                     | Some cv \<Rightarrow> point_add (A1 ! i)
                                  (map ((!) displacement) (vertex_dof_index cv)))"
        by simp
      then show ?thesis unfolding same using neq by simp
    qed
    with lA eq show ?thesis by simp
  qed
qed

lemma move_solid_mesh_forward:
  assumes "move_solid_mesh True solid = Inr solid1"
  shows "solid1 = solid\<lparr>vertices := displaced_vertices solid\<rparr>"
proof -
  let ?A = "vertices solid"
  let ?cvs = "concat (map cell_vertices (solid_cells solid))"
  from assms obtain t' A' where
    f: "foldE (move_vertex True (current_displacement solid)) ?cvs
          (replicate (length ?A) False, ?A) = Inr (t', A')"
    and s: "solid1 = solid\<lparr>vertices := A'\<rparr>"
    by (auto simp: move_solid_mesh_def foldE_concat bindE_eq_Inr)
  from move_loop_forward [OF f] have l: "length A' = length ?A"
    and v: "\<forall>i<length ?A. A' ! i = displaced_vertex solid i"
    by (simp_all add: displaced_vertex_def)
  have "A' = displaced_vertices solid"
    by (rule nth_equalityI) (use l v in \<open>simp_all add: displaced_vertices_def\<close>)
  with s show ?thesis by simp
qed

text \<open>
  On a mesh whose cells number the degrees of freedom of a common vertex alike,
  every vertex of every cell is displaced by the displacement at its own degrees
  of freedom.
\<close>

lemma displaced_vertex_of_cell:
  assumes "cell \<in> set (solid_cells solid)" and "cv \<in> set (cell_vertices cell)"
    and "\<forall>c\<in>set (solid_cells solid). \<forall>w\<in>set (cell_vertices c).
           vertex_index w = vertex_index cv \<longrightarrow> vertex_dof_index w = vertex_dof_index cv"
  shows "displaced_vertex solid (vertex_index cv)
         = point_add (vertices solid ! vertex_index cv)
             (map ((!) (current_displacement solid)) (vertex_dof_index cv))"
proof -
  let ?cvs = "concat (map cell_vertices (solid_cells solid))"
  from assms(1,2) have "cv \<in> set ?cvs" by auto
  then obtain w where w: "find (\<lambda>x. vertex_index x = vertex_index cv) ?cvs = Some w"
    by (cases "find (\<lambda>x. vertex_index x = vertex_index cv) ?cvs")
       (auto simp: find_None_iff)
  then obtain k where k: "k < length ?cvs" "w = ?cvs ! k" "vertex_index (?cvs ! k) = vertex_index cv"
    unfolding find_Some_iff by blast
  then have "w \<in> set ?cvs" and same: "vertex_index w = vertex_index cv"
    using nth_mem [OF k(1)] by simp_all
  then obtain c where "c \<in> set (solid_cells solid)" "w \<in> set (cell_vertices c)" by auto
  with assms(3) same have "vertex_dof_index w = vertex_dof_index cv" by blast
  with w show ?thesis by (simp add: displaced_vertex_def)
qed

text \<open>
  Claim C4. \<^verbatim>\<open>update_indicator\<close> returns, leaves the solid solver as it was, and
  sets the indicator of every quadrature point \<open>q\<close> of every fluid cell \<open>i\<close> to
  true exactly when every vertex of the cell is inside of some cell of the
  displaced solid mesh: the cells of the solid with every vertex at its reference
  position plus the displacement at its degrees of freedom. This displaced mesh
  is the one \<^verbatim>\<open>move_solid_mesh(true)\<close> produces.
\<close>

theorem update_indicator_all_vertices:
  assumes "solid_ok spacedim (solid_solver fsi)" and "fluid_ok (fluid_solver fsi)"
  shows "\<exists>fsi'.
           update_indicator tools fsi = Inr fsi'
         \<and> move_solid_mesh True (solid_solver fsi)
             = Inr ((solid_solver fsi)\<lparr>vertices := displaced_vertices (solid_solver fsi)\<rparr>)
         \<and> solid_solver fsi' = solid_solver fsi
         \<and> (\<forall>i<length (fluid_cells (fluid_solver fsi)). \<forall>q<n_q_points (fluid_solver fsi).
               indicator (fluid_cell_property (fluid_solver fsi') ! i ! q)
               \<longleftrightarrow> (\<forall>point\<in>set (f_vertices (fluid_cells (fluid_solver fsi) ! i)).
                      \<exists>cell\<in>set (solid_cells (solid_solver fsi)).
                        point_inside tools (displaced_vertices (solid_solver fsi)) cell point))"
proof -
  from update_indicator_scan [OF assms, of tools]
  obtain solid1 fsi' where m: "move_solid_mesh True (solid_solver fsi) = Inr solid1"
    and u: "update_indicator tools fsi = Inr fsi'"
    and s: "solid_solver fsi' = solid_solver fsi"
    and i: "\<forall>i<length (fluid_cells (fluid_solver fsi)). \<forall>q<n_q_points (fluid_solver fsi).
               indicator (fluid_cell_property (fluid_solver fsi') ! i ! q)
               \<longleftrightarrow> (\<forall>point\<in>set (f_vertices (fluid_cells (fluid_solver fsi) ! i)).
                      \<exists>cell\<in>set (solid_cells solid1).
                        point_inside tools (vertices solid1) cell point)"
    by blast
  have s1: "solid1 = (solid_solver fsi)\<lparr>vertices := displaced_vertices (solid_solver fsi)\<rparr>"
    by (rule move_solid_mesh_forward [OF m])
  from i have "\<forall>i<length (fluid_cells (fluid_solver fsi)). \<forall>q<n_q_points (fluid_solver fsi).
               indicator (fluid_cell_property (fluid_solver fsi') ! i ! q)
               \<longleftrightarrow> (\<forall>point\<in>set (f_vertices (fluid_cells (fluid_solver fsi) ! i)).
                      \<exists>cell\<in>set (solid_cells (solid_solver fsi)).
                        point_inside tools (displaced_vertices (solid_solver fsi)) cell point)"
    unfolding s1 by simp
  with u m s s1 show ?thesis by blast
qed

lemma displaced_two_cells:
  "displaced_vertices two_cells
     = [[0, 0], [5 / 4, 0], [0, 3 / 2], [5 / 4, 3 / 2], [5 / 2, 0], [5 / 2, 3 / 2]]"
proof -
  from move_solid_mesh_forward [OF two_cells_moved]
  have "vertices (two_cells\<lparr>vertices :=
              [[0, 0], [5 / 4, 0], [0, 3 / 2], [5 / 4, 3 / 2], [5 / 2, 0], [5 / 2, 3 / 2]]\<rparr>)
        = vertices (two_cells\<lparr>vertices := displaced_vertices two_cells\<rparr>)"
    by simp
  then show ?thesis by simp
qed

lemma coupled_at_the_rim_ok:
  "solid_ok 2 (solid_solver coupled_at_the_rim)" "fluid_ok (fluid_solver coupled_at_the_rim)"
  by (simp_all add: coupled_at_the_rim_def two_cells_ok fluid_ok_def fluid_at_the_rim_def)

text \<open>
  The first fluid cell is outside of the reference mesh and inside of the
  displaced one: its indicator becomes true. The second is far from both: its
  indicator becomes false.
\<close>

theorem update_indicator_all_vertices_witness:
  "\<not> vertex_loop box_tools (vertices two_cells) (solid_cells two_cells)
        (f_vertices (fluid_cells fluid_at_the_rim ! 0))
   \<and> \<not> indicator (fluid_cell_property fluid_at_the_rim ! 0 ! 0)
   \<and> indicator (fluid_cell_property fluid_at_the_rim ! 1 ! 0)
   \<and> (\<exists>fsi'. update_indicator box_tools coupled_at_the_rim = Inr fsi'
        \<and> indicator (fluid_cell_property (fluid_solver fsi') ! 0 ! 0)
        \<and> \<not> indicator (fluid_cell_property (fluid_solver fsi') ! 1 ! 0))"
proof -
  let ?fsi = "coupled_at_the_rim"
  from update_indicator_all_vertices [where fsi = ?fsi and spacedim = 2 and tools = box_tools,
      OF coupled_at_the_rim_ok]
  obtain fsi' where u: "update_indicator box_tools ?fsi = Inr fsi'"
    and i0: "\<forall>i<length (fluid_cells (fluid_solver ?fsi)). \<forall>q<n_q_points (fluid_solver ?fsi).
               indicator (fluid_cell_property (fluid_solver fsi') ! i ! q)
               \<longleftrightarrow> (\<forall>point\<in>set (f_vertices (fluid_cells (fluid_solver ?fsi) ! i)).
                      \<exists>cell\<in>set (solid_cells (solid_solver ?fsi)).
                        point_inside box_tools (displaced_vertices (solid_solver ?fsi)) cell point)"
    by blast
  have i: "\<forall>i<2. \<forall>q<1.
               indicator (fluid_cell_property (fluid_solver fsi') ! i ! q)
               \<longleftrightarrow> (\<forall>point\<in>set (f_vertices (fluid_cells fluid_at_the_rim ! i)).
                      \<exists>cell\<in>set (solid_cells two_cells).
                        point_inside box_tools
                          [[0, 0], [5 / 4, 0], [0, 3 / 2], [5 / 4, 3 / 2], [5 / 2, 0], [5 / 2, 3 / 2]]
                          cell point)"
    using i0 by (simp add: coupled_at_the_rim_def fluid_at_the_rim_def displaced_two_cells)
  have "indicator (fluid_cell_property (fluid_solver fsi') ! 0 ! 0)"
    using i [rule_format, of 0 0]
    by (simp add: fluid_at_the_rim_def two_cells_def box_tools_def in_box_def)
  moreover have "\<not> indicator (fluid_cell_property (fluid_solver fsi') ! 1 ! 0)"
    using i [rule_format, of 1 0]
    by (simp add: fluid_at_the_rim_def two_cells_def box_tools_def in_box_def)
  moreover have "\<not> vertex_loop box_tools (vertices two_cells) (solid_cells two_cells)
        (f_vertices (fluid_cells fluid_at_the_rim ! 0))"
    by (simp add: fluid_at_the_rim_def two_cells_def box_tools_def in_box_def)
  moreover have "\<not> indicator (fluid_cell_property fluid_at_the_rim ! 0 ! 0)"
    "indicator (fluid_cell_property fluid_at_the_rim ! 1 ! 0)"
    by (simp_all add: fluid_at_the_rim_def stale_def)
  ultimately show ?thesis using u by blast
qed

subsection \<open>The data of the fluid\<close>

lemma store_loop_Inr:
  "foldE (\<lambda>q. store_at q (g q)) [0..<n] p = Inr r \<Longrightarrow>
   n \<le> length p \<and> length r = length p
   \<and> (\<forall>q<n. g q (p ! q) = Inr (r ! q)) \<and> (\<forall>i<length p. n \<le> i \<longrightarrow> r ! i = p ! i)"
proof (induction n arbitrary: r)
  case 0
  then show ?case by simp
next
  case (Suc n)
  from Suc.prems obtain r0 where f: "foldE (\<lambda>q. store_at q (g q)) [0..<n] p = Inr r0"
    and s: "store_at n (g n) r0 = Inr r"
    by (auto simp: foldE_append bindE_eq_Inr)
  from Suc.IH [OF f] have n: "n \<le> length p" and l: "length r0 = length p"
    and v: "\<forall>q<n. g q (p ! q) = Inr (r0 ! q)" and w: "\<forall>i<length p. n \<le> i \<longrightarrow> r0 ! i = p ! i"
    by simp_all
  from s obtain x where lt: "n < length r0" and x: "g n (r0 ! n) = Inr x" and r: "r = r0[n := x]"
    by (auto simp: store_at_def bindE_eq_Inr split: if_splits)
  have "g q (p ! q) = Inr (r ! q)" if "q < Suc n" for q
  proof (cases "q = n")
    case True
    with lt l w x r show ?thesis by simp
  next
    case False
    with that v r show ?thesis by simp
  qed
  moreover have "\<forall>i<length p. Suc n \<le> i \<longrightarrow> r ! i = p ! i"
    using w r by simp
  ultimately show ?case using lt l r by simp
qed

lemma store_loop_total:
  "n \<le> length p \<Longrightarrow> \<forall>q<n. \<exists>x. g q (p ! q) = Inr x \<Longrightarrow>
   \<exists>r. foldE (\<lambda>q. store_at q (g q)) [0..<n] p = Inr r"
proof (induction n)
  case 0
  then show ?case by simp
next
  case (Suc n)
  then obtain r0 where f: "foldE (\<lambda>q. store_at q (g q)) [0..<n] p = Inr r0" by auto
  from store_loop_Inr [OF f] Suc.prems have "length r0 = length p" "r0 ! n = p ! n" by simp_all
  moreover from Suc.prems obtain x where "g n (p ! n) = Inr x" by auto
  ultimately have "store_at n (g n) r0 = Inr (r0[n := x])"
    using Suc.prems by (simp add: store_at_def)
  with f show ?case by (simp add: foldE_append)
qed

lemma fluid_bc_point_outside:
  "\<not> point_in_mesh tools (vertices solid) (solid_cells solid) (quadrature_point tools f_cell q) \<Longrightarrow>
   fluid_bc_point tools parameters spacedim delta_t solid fluid f_cell q old
     = Inr (old\<lparr>indicator := False, fsi_acceleration := zero_vector spacedim,
                fsi_stress := zero_tensor spacedim\<rparr>)"
  by (simp add: fluid_bc_point_def Let_def)

lemma find_fluid_bc_Inr:
  assumes "move_solid_mesh True (solid_solver fsi) = Inr solid1"
    and "find_fluid_bc tools parameters spacedim delta_t fsi = Inr fsi'"
  shows "for_cells
           (\<lambda>f_cell ptr.
              foldE (\<lambda>q. store_at q
                        (fluid_bc_point tools parameters spacedim delta_t solid1
                           (fluid_solver fsi) f_cell q))
                [0..<n_q_points (fluid_solver fsi)] ptr)
           (fluid_cells (fluid_solver fsi)) (fluid_cell_property (fluid_solver fsi))
         = Inr (fluid_cell_property (fluid_solver fsi'))"
  using assms by (auto simp: find_fluid_bc_def bindE_eq_Inr)

text \<open>
  Claim C5. For a quadrature point of a fluid cell that is in no cell of the
  moved solid mesh, the body of the loop of \<^verbatim>\<open>find_fluid_bc\<close> returns without an
  error, with the indicator false and the acceleration and the stress zero; these
  are the data of the point when \<^verbatim>\<open>find_fluid_bc\<close> returns; and when all the
  points are outside of the solid, \<^verbatim>\<open>find_fluid_bc\<close> does return, whatever the
  interpolation on the solid would do.
\<close>

theorem miss_is_not_an_error:
  assumes "solid_ok spacedim (solid_solver fsi)" and "fluid_ok (fluid_solver fsi)"
  shows "\<exists>solid1.
           move_solid_mesh True (solid_solver fsi) = Inr solid1
         \<and> (\<forall>i<length (fluid_cells (fluid_solver fsi)). \<forall>q<n_q_points (fluid_solver fsi).
               \<not> point_in_mesh tools (vertices solid1) (solid_cells solid1)
                    (quadrature_point tools (fluid_cells (fluid_solver fsi) ! i) q)
               \<longrightarrow> fluid_bc_point tools parameters spacedim delta_t solid1 (fluid_solver fsi)
                      (fluid_cells (fluid_solver fsi) ! i) q
                      (fluid_cell_property (fluid_solver fsi) ! i ! q)
                    = Inr ((fluid_cell_property (fluid_solver fsi) ! i ! q)
                             \<lparr>indicator := False, fsi_acceleration := zero_vector spacedim,
                              fsi_stress := zero_tensor spacedim\<rparr>)
                 \<and> (\<forall>fsi'. find_fluid_bc tools parameters spacedim delta_t fsi = Inr fsi'
                       \<longrightarrow> fluid_cell_property (fluid_solver fsi') ! i ! q
                           = (fluid_cell_property (fluid_solver fsi) ! i ! q)
                               \<lparr>indicator := False, fsi_acceleration := zero_vector spacedim,
                                fsi_stress := zero_tensor spacedim\<rparr>))
         \<and> ((\<forall>i<length (fluid_cells (fluid_solver fsi)). \<forall>q<n_q_points (fluid_solver fsi).
                \<not> point_in_mesh tools (vertices solid1) (solid_cells solid1)
                     (quadrature_point tools (fluid_cells (fluid_solver fsi) ! i) q))
              \<longrightarrow> (\<exists>fsi'. find_fluid_bc tools parameters spacedim delta_t fsi = Inr fsi'))"
proof -
  let ?fluid = "fluid_solver fsi"
  let ?cells = "fluid_cells ?fluid"
  let ?old = "fluid_cell_property ?fluid"
  let ?n = "n_q_points ?fluid"
  from move_forward_then_backward_aux [OF assms(1)]
  obtain solid1 where m1: "move_solid_mesh True (solid_solver fsi) = Inr solid1"
    and m2: "move_solid_mesh False solid1 = Inr (solid_solver fsi)" by blast
  let ?point = "\<lambda>i q. quadrature_point tools (?cells ! i) q"
  let ?out = "\<lambda>i q. \<not> point_in_mesh tools (vertices solid1) (solid_cells solid1) (?point i q)"
  let ?g = "\<lambda>f_cell q. fluid_bc_point tools parameters spacedim delta_t solid1 ?fluid f_cell q"
  let ?body = "\<lambda>f_cell ptr. foldE (\<lambda>q. store_at q (?g f_cell q)) [0..<?n] ptr"
  let ?reset = "\<lambda>x. x\<lparr>indicator := False, fsi_acceleration := zero_vector spacedim,
                       fsi_stress := zero_tensor spacedim\<rparr>"
  have len: "length ?cells = length ?old"
    and enough: "\<forall>i<length ?cells. ?n \<le> length (?old ! i)"
    using assms(2) by (simp_all add: fluid_ok_def list_all_length)
  have point: "?g (?cells ! i) q (?old ! i ! q) = Inr (?reset (?old ! i ! q))"
    if "?out i q" for i q
    using that by (rule fluid_bc_point_outside)
  have stored: "fluid_cell_property (fluid_solver fsi') ! i ! q = ?reset (?old ! i ! q)"
    if "i < length ?cells" "q < ?n" "?out i q"
      and f: "find_fluid_bc tools parameters spacedim delta_t fsi = Inr fsi'" for i q fsi'
  proof -
    from find_fluid_bc_Inr [OF m1 f] that(1)
    have "?body (?cells ! i) (?old ! i) = Inr (fluid_cell_property (fluid_solver fsi') ! i)"
      unfolding for_cells_Inr [OF len] by simp
    from store_loop_Inr [OF this] that(2)
    have "?g (?cells ! i) q (?old ! i ! q) = Inr (fluid_cell_property (fluid_solver fsi') ! i ! q)"
      by simp
    with point [OF that(3)] show ?thesis by simp
  qed
  have total: "\<exists>fsi'. find_fluid_bc tools parameters spacedim delta_t fsi = Inr fsi'"
    if all: "\<forall>i<length ?cells. \<forall>q<?n. ?out i q"
  proof -
    have "\<exists>r. ?body (?cells ! i) (?old ! i) = Inr r" if i: "i < length ?cells" for i
    proof (rule store_loop_total)
      show "?n \<le> length (?old ! i)" using enough i by simp
      show "\<forall>q<?n. \<exists>x. ?g (?cells ! i) q (?old ! i ! q) = Inr x"
        using all i point by blast
    qed
    then obtain properties where "for_cells ?body ?cells ?old = Inr properties"
      using for_cells_total [OF len, of ?body] by blast
    then show ?thesis using m1 m2 by (simp add: find_fluid_bc_def)
  qed
  from m1 point stored total show ?thesis by blast
qed

subsection \<open>Two runs side by side\<close>

lemma bindE_rel:
  assumes "rel_sum (=) R m m'"
    and "\<And>x x'. R x x' \<Longrightarrow> rel_sum (=) Q (f x) (f' x')"
  shows "rel_sum (=) Q (bindE m f) (bindE m' f')"
  using assms by (cases m; cases m') simp_all

lemma foldE_rel:
  assumes "\<And>x s s'. R s s' \<Longrightarrow> rel_sum (=) R (f x s) (g x s')" and "R s s'"
  shows "rel_sum (=) R (foldE f xs s) (foldE g xs s')"
  using assms(2)
proof (induction xs arbitrary: s s')
  case Nil
  then show ?case by simp
next
  case (Cons x xs)
  show ?case
    unfolding foldE.simps
    by (rule bindE_rel [where R = R]) (use Cons assms(1) in auto)
qed

lemma store_at_rel:
  assumes "list_all2 R p p'"
    and "\<And>x x'. R x x' \<Longrightarrow> rel_sum (=) R (g x) (g' x')"
  shows "rel_sum (=) (list_all2 R) (store_at q g p) (store_at q g' p')"
proof (cases "q < length p")
  case True
  with assms(1) have q': "q < length p'" and R: "R (p ! q) (p' ! q)"
    by (simp_all add: list_all2_lengthD list_all2_nthD)
  have "rel_sum (=) (list_all2 R) (bindE (g (p ! q)) (\<lambda>x. Inr (p[q := x])))
          (bindE (g' (p' ! q)) (\<lambda>x. Inr (p'[q := x])))"
    by (rule bindE_rel [where R = R]) (use assms R in \<open>auto intro: list_all2_update_cong\<close>)
  with True q' show ?thesis by (simp add: store_at_def)
next
  case False
  with assms(1) have "\<not> q < length p'" by (simp add: list_all2_lengthD)
  with False show ?thesis by (simp add: store_at_def)
qed

lemma for_cells_rel:
  assumes "\<And>c p p'. R p p' \<Longrightarrow> rel_sum (=) R (f c p) (g c p')" and "list_all2 R ps ps'"
  shows "rel_sum (=) (list_all2 R) (for_cells f cs ps) (for_cells g cs ps')"
  using assms(2)
proof (induction cs arbitrary: ps ps')
  case Nil
  then show ?case by simp
next
  case (Cons c cs)
  show ?case
  proof (cases ps)
    case Nil
    with Cons.prems show ?thesis by simp
  next
    case (Cons p ps0)
    with Cons.prems obtain p' ps0' where ps': "ps' = p' # ps0'"
      and R: "R p p'" and Rs: "list_all2 R ps0 ps0'"
      by (auto simp: list_all2_Cons1)
    have "rel_sum (=) (list_all2 R)
            (bindE (f c p) (\<lambda>x. bindE (for_cells f cs ps0) (\<lambda>xs. Inr (x # xs))))
            (bindE (g c p') (\<lambda>x. bindE (for_cells g cs ps0') (\<lambda>xs. Inr (x # xs))))"
    proof (rule bindE_rel [where R = R])
      show "rel_sum (=) R (f c p) (g c p')" using R by (rule assms(1))
    next
      fix x x' assume x: "R x x'"
      show "rel_sum (=) (list_all2 R) (bindE (for_cells f cs ps0) (\<lambda>xs. Inr (x # xs)))
              (bindE (for_cells g cs ps0') (\<lambda>xs. Inr (x' # xs)))"
        by (rule bindE_rel [where R = "list_all2 R"]) (use Cons.IH [OF Rs] x in auto)
    qed
    with Cons ps' show ?thesis by simp
  qed
qed

lemma fluid_bc_point_rel:
  assumes "same_but_stress old old'"
    and "fluid_cells fluid' = fluid_cells fluid"
  shows "rel_sum (=) same_but_stress
           (fluid_bc_point tools parameters spacedim delta_t solid fluid f_cell q old)
           (fluid_bc_point tools parameters spacedim delta_t solid fluid' f_cell q old')"
  using assms
  by (auto simp: fluid_bc_point_def Let_def same_but_stress_def bindE_def split: sum.splits)

lemma same_but_stress_refl: "list_all2 (list_all2 same_but_stress) ps ps"
  by (simp add: list_all2_refl same_but_stress_def)

lemma same_but_stress_accelerations:
  "list_all2 (list_all2 same_but_stress) ps ps' \<Longrightarrow>
   map (map fsi_acceleration) ps = map (map fsi_acceleration) ps'"
  by (auto simp: list_all2_conv_all_nth same_but_stress_def intro!: nth_equalityI)

lemma fluid_bc_point_acceleration:
  assumes "fluid_bc_point tools parameters spacedim delta_t solid fluid f_cell q old = Inr r"
    and "indicator r"
  shows "acceleration_difference tools parameters spacedim solid (quadrature_point tools f_cell q)
         = Inr (fsi_acceleration r)"
  using assms
  by (auto simp: fluid_bc_point_def acceleration_difference_def Let_def bindE_eq_Inr
      split: if_splits)

lemma find_fluid_bc_rel:
  "rel_sum (=) (\<lambda>a b. list_all2 (list_all2 same_but_stress)
                         (fluid_cell_property (fluid_solver a))
                         (fluid_cell_property (fluid_solver b)))
     (find_fluid_bc tools parameters spacedim delta_t
        (fsi\<lparr>fluid_solver := (fluid_solver fsi)\<lparr>present_solution := sol,
                                                 solution_increment := inc\<rparr>\<rparr>))
     (find_fluid_bc tools parameters spacedim delta_t fsi)"
proof -
  let ?fluid = "fluid_solver fsi"
  let ?fluid' = "?fluid\<lparr>present_solution := sol, solution_increment := inc\<rparr>"
  let ?P = "list_all2 (list_all2 same_but_stress)"
  show ?thesis
  proof (cases "move_solid_mesh True (solid_solver fsi)")
    case (Inl e)
    then show ?thesis by (simp add: find_fluid_bc_def)
  next
    case (Inr solid1)
    let ?body = "\<lambda>fl f_cell ptr.
                   foldE (\<lambda>q. store_at q
                             (fluid_bc_point tools parameters spacedim delta_t solid1 fl f_cell q))
                     [0..<n_q_points ?fluid] ptr"
    have cells: "rel_sum (=) ?P
                   (for_cells (?body ?fluid') (fluid_cells ?fluid) (fluid_cell_property ?fluid))
                   (for_cells (?body ?fluid) (fluid_cells ?fluid) (fluid_cell_property ?fluid))"
    proof (rule for_cells_rel [OF _ same_but_stress_refl])
      fix c p p' assume "list_all2 same_but_stress p p'"
      then show "rel_sum (=) (list_all2 same_but_stress) (?body ?fluid' c p) (?body ?fluid c p')"
      proof (rule foldE_rel [rotated])
        fix q s s' assume "list_all2 same_but_stress s s'"
        then show "rel_sum (=) (list_all2 same_but_stress)
                     (store_at q (fluid_bc_point tools parameters spacedim delta_t solid1 ?fluid' c q) s)
                     (store_at q (fluid_bc_point tools parameters spacedim delta_t solid1 ?fluid c q) s')"
          by (rule store_at_rel) (rule fluid_bc_point_rel, simp_all)
      qed
    qed
    show ?thesis
    proof (cases "for_cells (?body ?fluid) (fluid_cells ?fluid) (fluid_cell_property ?fluid)")
      case (Inl e)
      with cells have "for_cells (?body ?fluid') (fluid_cells ?fluid) (fluid_cell_property ?fluid)
                         = Inl e"
        by (cases "for_cells (?body ?fluid') (fluid_cells ?fluid) (fluid_cell_property ?fluid)")
           simp_all
      with Inl \<open>move_solid_mesh True (solid_solver fsi) = Inr solid1\<close> show ?thesis
        by (simp add: find_fluid_bc_def)
    next
      case (Inr properties)
      with cells obtain properties' where
        p': "for_cells (?body ?fluid') (fluid_cells ?fluid) (fluid_cell_property ?fluid)
               = Inr properties'" and rel: "?P properties' properties"
        by (cases "for_cells (?body ?fluid') (fluid_cells ?fluid) (fluid_cell_property ?fluid)")
           simp_all
      show ?thesis
      proof (cases "move_solid_mesh False solid1")
        case (Inl e)
        with Inr p' \<open>move_solid_mesh True (solid_solver fsi) = Inr solid1\<close> show ?thesis
          by (simp add: find_fluid_bc_def)
      next
        case (Inr solid2)
        with \<open>for_cells (?body ?fluid) (fluid_cells ?fluid) (fluid_cell_property ?fluid)
                = Inr properties\<close> p' rel
          \<open>move_solid_mesh True (solid_solver fsi) = Inr solid1\<close> show ?thesis
          by (simp add: find_fluid_bc_def)
      qed
    qed
  qed
qed

text \<open>
  Claim C10. Two runs of \<^verbatim>\<open>find_fluid_bc\<close> that differ in the present solution
  and in the solution increment of the fluid alone end in the same error or store
  the same accelerations. The acceleration stored for a covered point is the
  gravity of the parameters minus the acceleration of the solid at the point; for
  a point that is not covered it is zero.
\<close>

theorem acceleration_independent_of_fluid_velocity:
  "stored_accelerations
     (find_fluid_bc tools parameters spacedim delta_t
        (fsi\<lparr>fluid_solver := (fluid_solver fsi)\<lparr>present_solution := sol,
                                                 solution_increment := inc\<rparr>\<rparr>))
   = stored_accelerations (find_fluid_bc tools parameters spacedim delta_t fsi)
   \<and> (\<forall>solid fluid f_cell q old r.
         fluid_bc_point tools parameters spacedim delta_t solid fluid f_cell q old = Inr r
         \<longrightarrow> fsi_acceleration r =
               (if indicator r
                then projr (acceleration_difference tools parameters spacedim solid
                              (quadrature_point tools f_cell q))
                else zero_vector spacedim))"
proof -
  let ?A = "find_fluid_bc tools parameters spacedim delta_t
        (fsi\<lparr>fluid_solver := (fluid_solver fsi)\<lparr>present_solution := sol,
                                                 solution_increment := inc\<rparr>\<rparr>)"
  let ?B = "find_fluid_bc tools parameters spacedim delta_t fsi"
  have "stored_accelerations ?A = stored_accelerations ?B"
    using find_fluid_bc_rel [where tools = tools and parameters = parameters
        and spacedim = spacedim and delta_t = delta_t and fsi = fsi and sol = sol and inc = inc]
    by (cases ?A; cases ?B)
       (simp_all add: stored_accelerations_def same_but_stress_accelerations)
  moreover have "fsi_acceleration r =
               (if indicator r
                then projr (acceleration_difference tools parameters spacedim solid
                              (quadrature_point tools f_cell q))
                else zero_vector spacedim)"
    if "fluid_bc_point tools parameters spacedim delta_t solid fluid f_cell q old = Inr r"
    for solid fluid f_cell q old r
  proof (cases "indicator r")
    case True
    from fluid_bc_point_acceleration [OF that True] True show ?thesis by simp
  next
    case False
    with that show ?thesis
      by (auto simp: fluid_bc_point_def Let_def bindE_eq_Inr split: if_splits)
  qed
  ultimately show ?thesis by blast
qed

lemma two_cells_back:
  "move_solid_mesh False (two_cells\<lparr>vertices :=
       [[0, 0], [5 / 4, 0], [0, 3 / 2], [5 / 4, 3 / 2], [5 / 2, 0], [5 / 2, 3 / 2]]\<rparr>)
     = Inr two_cells"
proof -
  from move_forward_then_backward_aux [OF two_cells_ok]
  obtain vs where fwd: "move_solid_mesh True two_cells = Inr (two_cells\<lparr>vertices := vs\<rparr>)"
    and bwd: "move_solid_mesh False (two_cells\<lparr>vertices := vs\<rparr>) = Inr two_cells"
    by blast
  from fwd have "two_cells\<lparr>vertices := vs\<rparr> =
      two_cells\<lparr>vertices :=
        [[0, 0], [5 / 4, 0], [0, 3 / 2], [5 / 4, 3 / 2], [5 / 2, 0], [5 / 2, 3 / 2]]\<rparr>"
    unfolding two_cells_moved by simp
  with bwd show ?thesis by simp
qed

lemma zero_2: "zero_vector 2 = [0, 0]" "zero_tensor 2 = [[0, 0], [0, 0]]"
  by (simp_all add: zero_vector_def zero_tensor_def numeral_2_eq_2)

lemma upt_2: "[0..<2] = [0, 1]"
  by (simp add: numeral_2_eq_2)

lemma find_fluid_bc_coupled:
  "find_fluid_bc box_tools (coupling_parameters []) 2 (1 / 10) (coupled [1, 3] [1 / 2, 0])
     = Inr \<lparr>fluid_solver = (two_fluid_cells [1, 3] [1 / 2, 0])
              \<lparr>fluid_cell_property :=
                 [[\<lparr>indicator = True, fsi_acceleration = [- 1, - 12],
                    fsi_stress = [[- 4, 1], [1, - 5]]\<rparr>],
                  [\<lparr>indicator = False, fsi_acceleration = [0, 0],
                    fsi_stress = [[0, 0], [0, 0]]\<rparr>]]\<rparr>,
            solid_solver = two_cells\<rparr>"
proof -
  let ?moved = "two_cells\<lparr>vertices :=
       [[0, 0], [5 / 4, 0], [0, 3 / 2], [5 / 4, 3 / 2], [5 / 2, 0], [5 / 2, 3 / 2]]\<rparr>"
  have inside: "point_in_mesh box_tools (vertices ?moved) (solid_cells ?moved) [3 / 8, 3 / 8]"
    by (simp add: two_cells_def box_tools_def in_box_def)
  have outside: "\<not> point_in_mesh box_tools (vertices ?moved) (solid_cells ?moved) [11 / 2, 11 / 2]"
    by (simp add: two_cells_def box_tools_def in_box_def)
  have q0: "quadrature_point box_tools
              \<lparr>f_vertices = [[1 / 4, 1 / 4], [1 / 2, 1 / 4], [1 / 4, 1 / 2], [1 / 2, 1 / 2]]\<rparr> q
            = [3 / 8, 3 / 8]" for q
    by (simp add: box_tools_def)
  have q1: "quadrature_point box_tools \<lparr>f_vertices = [[5, 5], [6, 5], [5, 6], [6, 6]]\<rparr> q
            = [11 / 2, 11 / 2]" for q
    by (simp add: box_tools_def)
  have sigma: "solid_sigma box_tools 2 ?moved [3 / 8, 3 / 8] = Inr [[1, 0], [0, 2]]"
    by (simp add: solid_sigma_def upt_2 nth_checked_def two_cells_def box_tools_def in_box_def
          fit_def)
  have p0: "fluid_bc_point box_tools (coupling_parameters []) 2 (1 / 10) ?moved
              (two_fluid_cells [1, 3] [1 / 2, 0])
              \<lparr>f_vertices = [[1 / 4, 1 / 4], [1 / 2, 1 / 4], [1 / 4, 1 / 2], [1 / 2, 1 / 2]]\<rparr>
              0 stale
            = Inr \<lparr>indicator = True, fsi_acceleration = [- 1, - 12],
                    fsi_stress = [[- 4, 1], [1, - 5]]\<rparr>"
    unfolding fluid_bc_point_def Let_def q0 sigma
    using inside
    by (simp add: upt_2 nth_checked_def coupling_parameters_def stale_def fit_def
          two_fluid_cells_def unit_tensor_def tensor_scale_def tensor_add_def tensor_sub_def
          zero_2)
       (simp add: two_cells_def box_tools_def in_box_def)
  have p1: "fluid_bc_point box_tools (coupling_parameters []) 2 (1 / 10) ?moved
              (two_fluid_cells [1, 3] [1 / 2, 0])
              \<lparr>f_vertices = [[5, 5], [6, 5], [5, 6], [6, 6]]\<rparr> 0 stale
            = Inr \<lparr>indicator = False, fsi_acceleration = [0, 0],
                    fsi_stress = [[0, 0], [0, 0]]\<rparr>"
    using outside
    by (simp add: fluid_bc_point_outside q1 stale_def zero_2)
  have sel: "fluid_cells (two_fluid_cells sol inc) =
               [\<lparr>f_vertices = [[1 / 4, 1 / 4], [1 / 2, 1 / 4], [1 / 4, 1 / 2], [1 / 2, 1 / 2]]\<rparr>,
                \<lparr>f_vertices = [[5, 5], [6, 5], [5, 6], [6, 6]]\<rparr>]"
    "fluid_cell_property (two_fluid_cells sol inc) = [[stale], [stale]]"
    "n_q_points (two_fluid_cells sol inc) = 1" for sol inc
    by (simp_all add: two_fluid_cells_def)
  show ?thesis
    unfolding find_fluid_bc_def coupled_def
    by (simp add: two_cells_moved two_cells_back sel store_at_def p0 p1)
qed

text \<open>
  The quadrature point of the second fluid cell is outside of the solid; the
  interpolation \<open>point_value\<close> of \<open>box_tools\<close> would raise there.
\<close>

theorem miss_is_not_an_error_witness:
  "\<exists>fsi'. find_fluid_bc box_tools (coupling_parameters []) 2 (1 / 10)
            (coupled [1, 3] [1 / 2, 0]) = Inr fsi'
        \<and> fluid_cell_property (fluid_solver fsi') ! 1 ! 0
            = \<lparr>indicator = False, fsi_acceleration = [0, 0], fsi_stress = [[0, 0], [0, 0]]\<rparr>"
proof -
  let ?fsi = "coupled [1, 3] [1 / 2, 0]"
  from miss_is_not_an_error [where fsi = ?fsi and spacedim = 2 and tools = box_tools
      and parameters = "coupling_parameters []" and delta_t = "1 / 10", OF coupled_ok]
  obtain solid1 where m: "move_solid_mesh True (solid_solver ?fsi) = Inr solid1"
    and miss: "\<forall>i<length (fluid_cells (fluid_solver ?fsi)). \<forall>q<n_q_points (fluid_solver ?fsi).
               \<not> point_in_mesh box_tools (vertices solid1) (solid_cells solid1)
                    (quadrature_point box_tools (fluid_cells (fluid_solver ?fsi) ! i) q)
               \<longrightarrow> (\<forall>fsi'. find_fluid_bc box_tools (coupling_parameters []) 2 (1 / 10) ?fsi = Inr fsi'
                       \<longrightarrow> fluid_cell_property (fluid_solver fsi') ! i ! q
                           = (fluid_cell_property (fluid_solver ?fsi) ! i ! q)
                               \<lparr>indicator := False, fsi_acceleration := zero_vector 2,
                                fsi_stress := zero_tensor 2\<rparr>)"
    by blast
  from m have mv: "vertices solid1 =
      [[0, 0], [5 / 4, 0], [0, 3 / 2], [5 / 4, 3 / 2], [5 / 2, 0], [5 / 2, 3 / 2]]"
    "solid_cells solid1 = solid_cells two_cells"
    using moved_vertices [of solid1] by (simp_all add: coupled_def)
  have out: "\<not> point_in_mesh box_tools (vertices solid1) (solid_cells solid1)
                 (quadrature_point box_tools (fluid_cells (fluid_solver ?fsi) ! 1) 0)"
    unfolding mv by (simp add: coupled_def two_fluid_cells_def two_cells_def box_tools_def in_box_def)
  obtain fsi' where f: "find_fluid_bc box_tools (coupling_parameters []) 2 (1 / 10) ?fsi = Inr fsi'"
    by (simp add: find_fluid_bc_coupled)
  have "fluid_cell_property (fluid_solver fsi') ! 1 ! 0
          = (fluid_cell_property (fluid_solver ?fsi) ! 1 ! 0)
              \<lparr>indicator := False, fsi_acceleration := zero_vector 2,
               fsi_stress := zero_tensor 2\<rparr>"
    using miss [rule_format, of 1 0, OF _ _ out f]
    by (simp add: coupled_def two_fluid_cells_def)
  then have "fluid_cell_property (fluid_solver fsi') ! 1 ! 0
            = \<lparr>indicator = False, fsi_acceleration = [0, 0], fsi_stress = [[0, 0], [0, 0]]\<rparr>"
    by (simp add: coupled_def two_fluid_cells_def stale_def zero_2)
  with f show ?thesis by blast
qed

text \<open>
  Two fluid solutions on the same meshes: the stored accelerations are the same.
\<close>

theorem acceleration_independent_of_fluid_velocity_witness:
  "stored_accelerations
     (find_fluid_bc box_tools (coupling_parameters []) 2 (1 / 10) (coupled [7, 0] [0, 5]))
   = Inr [[[- 1, - 12]], [[0, 0]]]
   \<and> stored_accelerations
     (find_fluid_bc box_tools (coupling_parameters []) 2 (1 / 10) (coupled [1, 3] [1 / 2, 0]))
   = Inr [[[- 1, - 12]], [[0, 0]]]"
proof -
  have "(coupled [1, 3] [1 / 2, 0])
          \<lparr>fluid_solver := (fluid_solver (coupled [1, 3] [1 / 2, 0]))
             \<lparr>present_solution := [7, 0], solution_increment := [0, 5]\<rparr>\<rparr>
        = coupled [7, 0] [0, 5]"
    by (simp add: coupled_def two_fluid_cells_def)
  with acceleration_independent_of_fluid_velocity [where fsi = "coupled [1, 3] [1 / 2, 0]"
      and sol = "[7, 0]" and inc = "[0, 5]" and tools = box_tools
      and parameters = "coupling_parameters []" and spacedim = 2 and delta_t = "1 / 10"]
  have "stored_accelerations
     (find_fluid_bc box_tools (coupling_parameters []) 2 (1 / 10) (coupled [7, 0] [0, 5]))
   = stored_accelerations
     (find_fluid_bc box_tools (coupling_parameters []) 2 (1 / 10) (coupled [1, 3] [1 / 2, 0]))"
    by simp
  moreover have "stored_accelerations
     (find_fluid_bc box_tools (coupling_parameters []) 2 (1 / 10) (coupled [1, 3] [1 / 2, 0]))
   = Inr [[[- 1, - 12]], [[0, 0]]]"
    by (simp add: find_fluid_bc_coupled stored_accelerations_def)
  ultimately show ?thesis by simp
qed

subsection \<open>The traction on the solid\<close>

lemma move_solid_mesh_property:
  "move_solid_mesh move_forward (solid\<lparr>solid_cell_property := properties\<rparr>)
     = map_sum id (\<lambda>s. s\<lparr>solid_cell_property := properties\<rparr>)
         (move_solid_mesh move_forward solid)"
  by (simp add: move_solid_mesh_def bindE_def split: sum.splits prod.splits)

lemma face_traction_box:
  "face_traction box_tools (coupling_parameters ids) 2 (two_fluid_cells [1, 3] inc) vs s_cell f q
     = [- 3, 1]"
  by (simp add: face_traction_def Let_def box_tools_def coupling_parameters_def
        two_fluid_cells_def fit_def fit_rows_def upt_2 unit_tensor_def tensor_scale_def
        tensor_add_def tensor_apply_def dot_def)

lemma store_offset_loop:
  "b + n \<le> length p \<Longrightarrow>
   \<exists>r. foldE (\<lambda>q. store_at (b + q) (\<lambda>x. Inr (g q x))) [0..<n] p = Inr r
     \<and> length r = length p
     \<and> (\<forall>i<length p. r ! i = (if b \<le> i \<and> i < b + n then g (i - b) (p ! i) else p ! i))"
proof (induction n)
  case 0
  then show ?case by auto
next
  case (Suc n)
  then obtain r where r: "foldE (\<lambda>q. store_at (b + q) (\<lambda>x. Inr (g q x))) [0..<n] p = Inr r"
    and l: "length r = length p"
    and v: "\<forall>i<length p. r ! i = (if b \<le> i \<and> i < b + n then g (i - b) (p ! i) else p ! i)"
    by auto
  from v Suc.prems have same: "r ! (b + n) = p ! (b + n)" by simp
  have "foldE (\<lambda>q. store_at (b + q) (\<lambda>x. Inr (g q x))) [0..<Suc n] p
          = Inr (r[b + n := g n (p ! (b + n))])"
    using r l Suc.prems same by (simp add: foldE_append store_at_def)
  moreover have "\<forall>i<length p. r[b + n := g n (p ! (b + n))] ! i
          = (if b \<le> i \<and> i < b + Suc n then g (i - b) (p ! i) else p ! i)"
  proof (intro allI impI)
    fix i assume i: "i < length p"
    show "r[b + n := g n (p ! (b + n))] ! i
          = (if b \<le> i \<and> i < b + Suc n then g (i - b) (p ! i) else p ! i)"
    proof (cases "i = b + n")
      case True
      with l i show ?thesis by simp
    next
      case False
      with v i show ?thesis by (auto simp: nth_list_update)
    qed
  qed
  ultimately show ?case using l by simp
qed

lemma face_loop:
  "nf * n \<le> length p \<Longrightarrow>
   \<exists>r. foldE (\<lambda>f ptr. if B f
                       then foldE (\<lambda>q. store_at (f * n + q) (\<lambda>x. Inr (g f q x))) [0..<n] ptr
                       else Inr ptr) [0..<nf] p = Inr r
     \<and> length r = length p
     \<and> (\<forall>f<nf. \<forall>q<n. r ! (f * n + q)
            = (if B f then g f q (p ! (f * n + q)) else p ! (f * n + q)))
     \<and> (\<forall>i<length p. nf * n \<le> i \<longrightarrow> r ! i = p ! i)"
proof (induction nf)
  case 0
  then show ?case by simp
next
  case (Suc nf)
  let ?body = "\<lambda>f ptr. if B f
                       then foldE (\<lambda>q. store_at (f * n + q) (\<lambda>x. Inr (g f q x))) [0..<n] ptr
                       else Inr ptr"
  from Suc.prems have le: "nf * n + n \<le> length p" by (simp add: add.commute)
  then have "nf * n \<le> length p" by simp
  with Suc.IH obtain r0 where r0: "foldE ?body [0..<nf] p = Inr r0"
    and l0: "length r0 = length p"
    and v0: "\<forall>f<nf. \<forall>q<n. r0 ! (f * n + q)
            = (if B f then g f q (p ! (f * n + q)) else p ! (f * n + q))"
    and w0: "\<forall>i<length p. nf * n \<le> i \<longrightarrow> r0 ! i = p ! i"
    by blast
  have below: "f * n + q < nf * n" if "f < nf" "q < n" for f q
  proof -
    from that(1) have "Suc f * n \<le> nf * n" by (intro mult_le_mono1) simp
    with that(2) show ?thesis by simp
  qed
  show ?case
  proof (cases "B nf")
    case False
    have "foldE ?body [0..<Suc nf] p = Inr r0"
      using r0 False by (simp add: foldE_append)
    moreover have "\<forall>f<Suc nf. \<forall>q<n. r0 ! (f * n + q)
            = (if B f then g f q (p ! (f * n + q)) else p ! (f * n + q))"
    proof (intro allI impI)
      fix f q assume f: "f < Suc nf" and q: "q < n"
      show "r0 ! (f * n + q) = (if B f then g f q (p ! (f * n + q)) else p ! (f * n + q))"
      proof (cases "f = nf")
        case True
        with False w0 le q show ?thesis by simp
      next
        case False
        with f v0 q show ?thesis by simp
      qed
    qed
    moreover have "\<forall>i<length p. Suc nf * n \<le> i \<longrightarrow> r0 ! i = p ! i"
      using w0 by simp
    ultimately show ?thesis using l0 by blast
  next
    case True
    from le l0 have "nf * n + n \<le> length r0" by simp
    from store_offset_loop [OF this, of "g nf"]
    obtain r where r: "foldE (\<lambda>q. store_at (nf * n + q) (\<lambda>x. Inr (g nf q x))) [0..<n] r0 = Inr r"
      and l: "length r = length r0"
      and v: "\<forall>i<length r0. r ! i
               = (if nf * n \<le> i \<and> i < nf * n + n then g nf (i - nf * n) (r0 ! i) else r0 ! i)"
      by blast
    have "foldE ?body [0..<Suc nf] p = Inr r"
      using r0 r True by (simp add: foldE_append)
    moreover have "\<forall>f<Suc nf. \<forall>q<n. r ! (f * n + q)
            = (if B f then g f q (p ! (f * n + q)) else p ! (f * n + q))"
    proof (intro allI impI)
      fix f q assume f: "f < Suc nf" and q: "q < n"
      show "r ! (f * n + q) = (if B f then g f q (p ! (f * n + q)) else p ! (f * n + q))"
      proof (cases "f = nf")
        case eq: True
        from q le l0 have "nf * n + q < length r0" by simp
        with v q have "r ! (nf * n + q) = g nf q (r0 ! (nf * n + q))" by simp
        moreover from w0 q le have "r0 ! (nf * n + q) = p ! (nf * n + q)" by simp
        ultimately show ?thesis using eq True by simp
      next
        case False
        with f have fl: "f < nf" by simp
        from below [OF fl q] le l0 have "f * n + q < length r0" "\<not> nf * n \<le> f * n + q" by simp_all
        with v have "r ! (f * n + q) = r0 ! (f * n + q)" by simp
        with v0 fl q show ?thesis by simp
      qed
    qed
    moreover have "\<forall>i<length p. Suc nf * n \<le> i \<longrightarrow> r ! i = p ! i"
      using v w0 l0 by simp
    ultimately show ?thesis using l l0 by (intro exI [of _ r]) simp
  qed
qed

text \<open>
  On a well-shaped mesh \<^verbatim>\<open>find_solid_bc\<close> returns, restores the vertices, and
  stores at every quadrature point of every face at the boundary the traction
  \<open>(-p I + \<mu> sym(\<nabla>v)) n\<close> of \<open>face_traction\<close>; the data of the other faces stay.
\<close>

lemma find_solid_bc_boundary_faces:
  assumes "solid_ok spacedim (solid_solver fsi)" and "solid_data_ok (solid_solver fsi)"
  shows "\<exists>solid1 fsi'.
           move_solid_mesh True (solid_solver fsi) = Inr solid1
         \<and> find_solid_bc tools parameters spacedim fsi = Inr fsi'
         \<and> vertices (solid_solver fsi') = vertices (solid_solver fsi)
         \<and> (\<forall>i<length (solid_cells (solid_solver fsi)).
              \<forall>f<length (faces (solid_cells (solid_solver fsi) ! i)).
              \<forall>q<n_face_q_points (solid_solver fsi).
                solid_cell_property (solid_solver fsi') ! i
                  ! (f * n_face_q_points (solid_solver fsi) + q)
                = (if at_boundary (faces (solid_cells (solid_solver fsi) ! i) ! f)
                   then (solid_cell_property (solid_solver fsi) ! i
                           ! (f * n_face_q_points (solid_solver fsi) + q))
                          \<lparr>fsi_traction :=
                             face_traction tools parameters spacedim (fluid_solver fsi)
                               (vertices solid1) (solid_cells (solid_solver fsi) ! i) f q\<rparr>
                   else solid_cell_property (solid_solver fsi) ! i
                          ! (f * n_face_q_points (solid_solver fsi) + q)))"
proof -
  let ?solid = "solid_solver fsi"
  let ?cells = "solid_cells ?solid"
  let ?old = "solid_cell_property ?solid"
  let ?n = "n_face_q_points ?solid"
  from move_forward_then_backward_aux [OF assms(1)]
  obtain vs where m1: "move_solid_mesh True ?solid = Inr (?solid\<lparr>vertices := vs\<rparr>)"
    and m2: "move_solid_mesh False (?solid\<lparr>vertices := vs\<rparr>) = Inr ?solid" by blast
  let ?T = "\<lambda>s_cell f q (x :: solid_property).
              x\<lparr>fsi_traction := face_traction tools parameters spacedim (fluid_solver fsi)
                                     vs s_cell f q\<rparr>"
  let ?body = "\<lambda>s_cell ptr.
                 foldE (\<lambda>f ptr.
                          if at_boundary (faces s_cell ! f)
                          then foldE (\<lambda>q. store_at (f * ?n + q) (\<lambda>x. Inr (?T s_cell f q x)))
                                 [0..<?n] ptr
                          else Inr ptr)
                   [0..<length (faces s_cell)] ptr"
  from assms(2) have shape: "list_all2 (\<lambda>cell p. length (faces cell) * ?n \<le> length p) ?cells ?old"
    unfolding solid_data_ok_def by (rule conjunct2)
  then have len: "length ?cells = length ?old"
    by (rule list_all2_lengthD)
  have enough: "\<forall>i<length ?cells. length (faces (?cells ! i)) * ?n \<le> length (?old ! i)"
    using list_all2_nthD [OF shape] by blast
  have each: "\<exists>r. ?body (?cells ! i) (?old ! i) = Inr r
               \<and> (\<forall>f<length (faces (?cells ! i)). \<forall>q<?n.
                     r ! (f * ?n + q)
                     = (if at_boundary (faces (?cells ! i) ! f)
                        then ?T (?cells ! i) f q (?old ! i ! (f * ?n + q))
                        else ?old ! i ! (f * ?n + q)))"
    if "i < length ?cells" for i
  proof -
    from that enough have "length (faces (?cells ! i)) * ?n \<le> length (?old ! i)" by simp
    from face_loop [OF this, of "\<lambda>f. at_boundary (faces (?cells ! i) ! f)" "?T (?cells ! i)"]
    obtain r where r: "?body (?cells ! i) (?old ! i) = Inr r"
      and v: "\<forall>f<length (faces (?cells ! i)). \<forall>q<?n.
                     r ! (f * ?n + q)
                     = (if at_boundary (faces (?cells ! i) ! f)
                        then ?T (?cells ! i) f q (?old ! i ! (f * ?n + q))
                        else ?old ! i ! (f * ?n + q))"
      by (elim exE conjE)
    show ?thesis
      by (rule exI [of _ r]) (use r v in simp)
  qed
  then obtain properties where fc: "for_cells ?body ?cells ?old = Inr properties"
    using for_cells_total [OF len, of ?body] by blast
  have stored: "properties ! i ! (f * ?n + q)
          = (if at_boundary (faces (?cells ! i) ! f)
             then ?T (?cells ! i) f q (?old ! i ! (f * ?n + q))
             else ?old ! i ! (f * ?n + q))"
    if "i < length ?cells" "f < length (faces (?cells ! i))" "q < ?n" for i f q
  proof -
    from fc that(1) have "?body (?cells ! i) (?old ! i) = Inr (properties ! i)"
      unfolding for_cells_Inr [OF len] by simp
    moreover from each [OF that(1)] obtain r where "?body (?cells ! i) (?old ! i) = Inr r"
      and "\<forall>f<length (faces (?cells ! i)). \<forall>q<?n.
                     r ! (f * ?n + q)
                     = (if at_boundary (faces (?cells ! i) ! f)
                        then ?T (?cells ! i) f q (?old ! i ! (f * ?n + q))
                        else ?old ! i ! (f * ?n + q))"
      by (elim exE conjE)
    ultimately show ?thesis using that(2,3) by simp
  qed
  let ?solid1 = "?solid\<lparr>vertices := vs\<rparr>"
  have fc1: "for_cells
              (\<lambda>s_cell ptr.
                 foldE (\<lambda>f ptr.
                          if at_boundary (faces s_cell ! f)
                          then foldE (\<lambda>q. store_at (f * n_face_q_points ?solid1 + q)
                                       (\<lambda>x. Inr (x\<lparr>fsi_traction :=
                                          face_traction tools parameters spacedim
                                            (fluid_solver fsi) (vertices ?solid1) s_cell f q\<rparr>)))
                                 [0..<n_face_q_points ?solid1] ptr
                          else Inr ptr)
                   [0..<length (faces s_cell)] ptr)
              (solid_cells ?solid1) (solid_cell_property ?solid1) = Inr properties"
    using fc by (simp cong: if_cong)
  have back1: "move_solid_mesh False (?solid1\<lparr>solid_cell_property := properties\<rparr>)
                 = Inr (?solid\<lparr>solid_cell_property := properties\<rparr>)"
    by (simp add: move_solid_mesh_property m2)
  have "find_solid_bc tools parameters spacedim fsi
          = Inr (fsi\<lparr>solid_solver := ?solid\<lparr>solid_cell_property := properties\<rparr>\<rparr>)"
    by (simp only: find_solid_bc_def m1 bindE_Inr fc1 back1)
  with m1 stored show ?thesis by simp
qed

text \<open>
  Claim C3. The traction is computed by the formula of the claim (the lemma
  above), but for every face at the boundary: face 0 of the first cell has the boundary id 0, which the
  parameters list among the Dirichlet conditions, and \<^verbatim>\<open>find_solid_bc\<close> replaces
  its traction \<open>(0, 0)\<close> by \<open>(-3, 1)\<close>, the traction of the pressure 3 and of the
  viscous stress on the normal \<open>(1, 0)\<close>.
\<close>

theorem dirichlet_face_gets_traction:
  "has_dirichlet_bc (coupling_parameters [0]) (faces (solid_cells two_cells ! 0) ! 0)
   \<and> fsi_traction (solid_cell_property (solid_solver (coupled [1, 3] [0, 0])) ! 0 ! 0) = [0, 0]
   \<and> (\<exists>fsi'. find_solid_bc box_tools (coupling_parameters [0]) 2 (coupled [1, 3] [0, 0])
                = Inr fsi'
             \<and> fsi_traction (solid_cell_property (solid_solver fsi') ! 0 ! 0) = [- 3, 1])"
proof -
  have upt_4: "[0..<4] = [0, 1, 2, 3]"
    by (simp add: upt_rec)
  have sel: "faces (solid_cells two_cells ! 0) ! 0 = \<lparr>at_boundary = True, boundary_id = 0\<rparr>"
    "solid_cell_property two_cells ! 0 ! 0 = \<lparr>fsi_traction = [0, 0]\<rparr>"
    by (simp_all add: two_cells_def numeral_eq_Suc)
  have "find_solid_bc box_tools (coupling_parameters [0]) 2 (coupled [1, 3] [0, 0])
          = Inr ((coupled [1, 3] [0, 0])\<lparr>solid_solver := two_cells\<lparr>solid_cell_property :=
              [[\<lparr>fsi_traction = [- 3, 1]\<rparr>, \<lparr>fsi_traction = [- 3, 1]\<rparr>,
                \<lparr>fsi_traction = [0, 0]\<rparr>, \<lparr>fsi_traction = [0, 0]\<rparr>,
                \<lparr>fsi_traction = [- 3, 1]\<rparr>, \<lparr>fsi_traction = [- 3, 1]\<rparr>,
                \<lparr>fsi_traction = [- 3, 1]\<rparr>, \<lparr>fsi_traction = [- 3, 1]\<rparr>],
               [\<lparr>fsi_traction = [0, 0]\<rparr>, \<lparr>fsi_traction = [0, 0]\<rparr>,
                \<lparr>fsi_traction = [- 3, 1]\<rparr>, \<lparr>fsi_traction = [- 3, 1]\<rparr>,
                \<lparr>fsi_traction = [- 3, 1]\<rparr>, \<lparr>fsi_traction = [- 3, 1]\<rparr>,
                \<lparr>fsi_traction = [- 3, 1]\<rparr>, \<lparr>fsi_traction = [- 3, 1]\<rparr>]]\<rparr>\<rparr>)"
    unfolding find_solid_bc_def coupled_def
    by (simp add: two_cells_moved move_solid_mesh_property two_cells_back)
       (simp add: two_cells_def upt_4 upt_2 store_at_def numeral_eq_Suc
          face_traction_box [unfolded numeral_2_eq_2])
  then show ?thesis
    by (simp add: has_dirichlet_bc_def sel coupling_parameters_def coupled_def)
qed


end
